theory Spec2Isabelle
  imports Main "HOL-Library.Word" "HOL-Library.Multiset"
begin

text \<open>
  Call Me Reminder: a web form schedules a phone call that speaks a reminder, a
  dashboard lists the reminders, and a background scheduler places the calls that are
  due. The first part of this theory embeds the TypeScript front end (the reminder form
  and the reminder card) and a model of the scheduling engine; the second part states
  and proves their properties.
\<close>

section \<open>JavaScript strings\<close>

text \<open>
  The front end is TypeScript: a string is a sequence of UTF-16 code units, and
  \<^verbatim>\<open>length\<close>, \<^verbatim>\<open>slice\<close> and the regular expressions used here (none has the
  \<^verbatim>\<open>u\<close> flag) count code units. A code unit is a 16-bit word, so that the
  bullet U+2022 written by \<^verbatim>\<open>maskPhone\<close> is one character, as it is in the browser.
\<close>

type_synonym jschar = "16 word"
type_synonym jsstring = "jschar list"

text \<open>An ASCII literal of the source as a list of code units.\<close>

definition js :: "string \<Rightarrow> jsstring" where
  "js s = map of_char s"

text \<open>The class \<^verbatim>\<open>\d\<close>: the ten ASCII digits. \<^verbatim>\<open>\D\<close> is its complement.\<close>

definition is_digit :: "jschar \<Rightarrow> bool" where
  "is_digit c \<longleftrightarrow> 48 \<le> c \<and> c \<le> 57"

text \<open>The class \<^verbatim>\<open>[1-9]\<close>.\<close>

definition is_nonzero_digit :: "jschar \<Rightarrow> bool" where
  "is_nonzero_digit c \<longleftrightarrow> 49 \<le> c \<and> c \<le> 57"

text \<open>
  The regular expression dot matches every code unit but the four line terminators
  LF, CR, U+2028 and U+2029.
\<close>

definition is_line_terminator :: "jschar \<Rightarrow> bool" where
  "is_line_terminator c \<longleftrightarrow> c = 10 \<or> c = 13 \<or> c = 8232 \<or> c = 8233"

text \<open>What \<^verbatim>\<open>String.prototype.trim\<close> removes: white space and line terminators.\<close>

definition is_white_space :: "jschar \<Rightarrow> bool" where
  "is_white_space c \<longleftrightarrow>
     c = 9 \<or> c = 10 \<or> c = 11 \<or> c = 12 \<or> c = 13 \<or> c = 32 \<or> c = 160 \<or> c = 5760 \<or>
     (8192 \<le> c \<and> c \<le> 8202) \<or> c = 8232 \<or> c = 8233 \<or> c = 8239 \<or> c = 8287 \<or>
     c = 12288 \<or> c = 65279"

definition js_trim :: "jsstring \<Rightarrow> jsstring" where
  "js_trim s = rev (dropWhile is_white_space (rev (dropWhile is_white_space s)))"

text \<open>
  \<^verbatim>\<open>s.slice(b, e)\<close>: a negative index counts from the end, and both indices are
  clamped to the string; an empty range gives the empty string.
\<close>

definition js_slice :: "'a list \<Rightarrow> int \<Rightarrow> int \<Rightarrow> 'a list" where
  "js_slice s b e =
     (let n = int (length s);
          from = (if b < 0 then max (n + b) 0 else min b n);
          to = (if e < 0 then max (n + e) 0 else min e n)
      in take (nat (to - from)) (drop (nat from) s))"

text \<open>\<^verbatim>\<open>s.slice(b)\<close>: the end defaults to the length.\<close>

definition js_slice_from :: "'a list \<Rightarrow> int \<Rightarrow> 'a list" where
  "js_slice_from s b = js_slice s b (int (length s))"

definition endsWith :: "'a list \<Rightarrow> 'a list \<Rightarrow> bool" where
  "endsWith s suf \<longleftrightarrow>
     length suf \<le> length s \<and> drop (length s - length suf) s = suf"

text \<open>\<^verbatim>\<open>s.includes(sub)\<close>: \<open>sub\<close> occurs at some position of \<open>s\<close>.\<close>

fun js_includes :: "'a list \<Rightarrow> 'a list \<Rightarrow> bool" where
  "js_includes [] sub = (sub = [])"
| "js_includes (c # cs) sub =
     (if take (length sub) (c # cs) = sub then True else js_includes cs sub)"

section \<open>The reminder form (reminder-form.tsx)\<close>

subsection \<open>Phone numbers\<close>

text \<open>\<^verbatim>\<open>value.replace(/\D/g, "")\<close>: every code unit that is not a digit is removed.\<close>

definition strip_non_digits :: "jsstring \<Rightarrow> jsstring" where
  "strip_non_digits v = filter is_digit v"

definition formatPhoneDisplay :: "jsstring \<Rightarrow> jsstring" where
  "formatPhoneDisplay v =
     (let digits = strip_non_digits v in
      if length digits = 0 then js ''+''
      else if length digits \<le> 1 then js ''+'' @ digits
      else if length digits \<le> 4 then
        js ''+'' @ js_slice digits 0 1 @ js '' '' @ js_slice_from digits 1
      else if length digits \<le> 7 then
        js ''+'' @ js_slice digits 0 1 @ js '' ('' @ js_slice digits 1 4 @ js '') '' @
        js_slice_from digits 4
      else
        js ''+'' @ js_slice digits 0 1 @ js '' ('' @ js_slice digits 1 4 @ js '') '' @
        js_slice digits 4 7 @ js ''-'' @ js_slice digits 7 11)"

text \<open>A string is truthy when it is not empty.\<close>

definition parsePhoneToE164 :: "jsstring \<Rightarrow> jsstring" where
  "parsePhoneToE164 formatted =
     (let digits = strip_non_digits formatted in
      if digits \<noteq> [] then js ''+'' @ digits else [])"

text \<open>
  \<^verbatim>\<open>/^\+[1-9]\d{6,14}$/.test(s)\<close>: without the \<^verbatim>\<open>m\<close> flag the anchors are the two
  ends of the string, so the whole string is a plus sign, one digit from 1 to 9 and then
  six to fourteen digits.
\<close>

fun test_e164 :: "jsstring \<Rightarrow> bool" where
  "test_e164 (p # d # ds) =
     (p = 43 \<and> is_nonzero_digit d \<and> list_all is_digit ds \<and> 6 \<le> length ds \<and> length ds \<le> 14)"
| "test_e164 _ = False"

subsection \<open>The browser and the date library\<close>

text \<open>
  The components call the built-in \<^verbatim>\<open>Date\<close> and the libraries date-fns and
  date-fns-tz, and read the clock and the browser's time zone. None of this is code of
  the repository: it is a parameter of the model, a snapshot of the environment at the
  moment a function runs. \<open>'d\<close> is the type of \<^verbatim>\<open>Date\<close> objects, the Invalid Date
  among them. A call that can throw returns an option, \<open>None\<close> where it throws.
  \<^item> \<open>newDate s\<close> is \<^verbatim>\<open>new Date(s)\<close>, which never throws;
  \<^item> \<open>leNow d\<close> is \<^verbatim>\<open>d <= new Date()\<close>;
  \<^item> \<open>toISOString d\<close> is \<open>None\<close> where \<^verbatim>\<open>d.toISOString()\<close> throws a RangeError
    (an Invalid Date);
  \<^item> \<open>timeZone\<close> is \<^verbatim>\<open>Intl.DateTimeFormat().resolvedOptions().timeZone\<close>;
  \<^item> \<open>toZonedTime d tz\<close> is \<open>None\<close> where the library throws on the date or the zone
    (where it answers with an Invalid Date instead, that date is the result);
  \<^item> \<open>format d pattern\<close> is \<open>None\<close> where \<^verbatim>\<open>format\<close> throws a RangeError (an Invalid
    Date);
  \<^item> \<open>isPast d\<close> is the library function of this name;
  \<^item> \<open>formatDistanceToNow d\<close>, called with \<^verbatim>\<open>addSuffix: false\<close>, is \<open>None\<close> where it
    throws a RangeError (an Invalid Date).
\<close>

record 'd env =
  newDate :: "jsstring \<Rightarrow> 'd"
  leNow :: "'d \<Rightarrow> bool"
  toISOString :: "'d \<Rightarrow> jsstring option"
  timeZone :: jsstring
  toZonedTime :: "'d \<Rightarrow> jsstring \<Rightarrow> 'd option"
  format :: "'d \<Rightarrow> jsstring \<Rightarrow> jsstring option"
  isPast :: "'d \<Rightarrow> bool"
  formatDistanceToNow :: "'d \<Rightarrow> jsstring option"

text \<open>The exception the date functions throw. Nothing in the components catches it:
  a render or an effect that throws shows nothing.\<close>

datatype js_error = RangeError

subsection \<open>The API types (lib/api.ts)\<close>

datatype status = scheduled | completed | failed

record Reminder =
  reminder_id :: int
  title :: jsstring
  message :: jsstring
  phone_number :: jsstring
  scheduled_at :: jsstring
  timezone :: jsstring
  status :: status
  call_id :: "jsstring option"
  error_message :: "jsstring option"
  created_at :: jsstring
  updated_at :: jsstring

text \<open>
  \<^verbatim>\<open>CreateReminderData\<close> and \<^verbatim>\<open>UpdateReminderData\<close> have the same five fields
  (optional in the second; the form always sends all five).
\<close>

record ReminderData =
  data_title :: jsstring
  data_message :: jsstring
  data_phone_number :: jsstring
  data_scheduled_at :: jsstring
  data_timezone :: jsstring

text \<open>The two requests of the form: \<^verbatim>\<open>api.createReminder(data)\<close> and
  \<^verbatim>\<open>api.updateReminder(reminder.id, data)\<close>.\<close>

datatype mutation = createReminder ReminderData | updateReminder int ReminderData

subsection \<open>parseAsUTC (the same function in both components)\<close>

definition parseAsUTC :: "'d env \<Rightarrow> jsstring \<Rightarrow> 'd" where
  "parseAsUTC env dateString =
     (if \<not> endsWith dateString (js ''Z'') \<and> \<not> js_includes dateString (js ''+'')
      then newDate env (dateString @ js ''Z'')
      else newDate env dateString)"

subsection \<open>The form's state and validation\<close>

text \<open>
  The state of \<^verbatim>\<open>ReminderForm\<close>: the \<^verbatim>\<open>reminder\<close> prop (present when editing) and
  the six \<^verbatim>\<open>useState\<close> values that reach the request. The \<^verbatim>\<open>errors\<close> state is the
  first component of \<open>validateForm\<close>'s result; \<^verbatim>\<open>touched\<close> only styles the inputs.
\<close>

record form =
  form_reminder :: "Reminder option"
  form_title :: jsstring
  form_message :: jsstring
  form_phoneDisplay :: jsstring
  form_date :: jsstring
  form_time :: jsstring
  form_timezone :: jsstring

text \<open>A value of type \<^verbatim>\<open>string | undefined\<close> (or \<^verbatim>\<open>string | null\<close>) is truthy when it
  is a non-empty string.\<close>

definition truthy :: "jsstring option \<Rightarrow> bool" where
  "truthy v = (case v of None \<Rightarrow> False | Some s \<Rightarrow> s \<noteq> [])"

text \<open>\<^verbatim>\<open>a || b\<close>\<close>

definition js_or :: "jsstring option \<Rightarrow> jsstring option \<Rightarrow> jsstring option" where
  "js_or a b = (if truthy a then a else b)"

text \<open>
  The date and the time the form shows for a reminder being edited: the stored instant,
  parsed as UTC, moved to the stored time zone and formatted with the given pattern.
  Both \<^verbatim>\<open>useState\<close> initialisers compute this; a throw of the library is a throw of the
  initialiser.
\<close>

definition zonedText :: "'d env \<Rightarrow> Reminder \<Rightarrow> jsstring \<Rightarrow> js_error + jsstring" where
  "zonedText env r pattern =
     (if scheduled_at r \<noteq> [] \<and> timezone r \<noteq> [] then
        (let utcDate = parseAsUTC env (scheduled_at r) in
         case toZonedTime env utcDate (timezone r) of
           None \<Rightarrow> Inl RangeError
         | Some zonedDate \<Rightarrow>
             (case format env zonedDate pattern of
                None \<Rightarrow> Inl RangeError
              | Some text \<Rightarrow> Inr text))
      else Inr [])"

text \<open>
  The state of a form when it is mounted (the \<^verbatim>\<open>useState\<close> initialisers), or the
  error thrown while mounting it.
\<close>

definition initialForm :: "'d env \<Rightarrow> Reminder option \<Rightarrow> js_error + form" where
  "initialForm env reminder =
     (case reminder of
        None \<Rightarrow>
          Inr \<lparr> form_reminder = None, form_title = [], form_message = [],
                form_phoneDisplay = js ''+'', form_date = [], form_time = [],
                form_timezone = timeZone env \<rparr>
      | Some r \<Rightarrow>
          (case zonedText env r (js ''yyyy-MM-dd'') of
             Inl e \<Rightarrow> Inl e
           | Inr dateText \<Rightarrow>
               (case zonedText env r (js ''HH:mm'') of
                  Inl e \<Rightarrow> Inl e
                | Inr timeText \<Rightarrow>
                    Inr \<lparr> form_reminder = Some r,
                          form_title = title r,
                          form_message = message r,
                          form_phoneDisplay =
                            (if phone_number r \<noteq> [] then formatPhoneDisplay (phone_number r)
                             else js ''+''),
                          form_date = dateText,
                          form_time = timeText,
                          form_timezone = timeZone env \<rparr>)))"

definition handlePhoneChange :: "form \<Rightarrow> jsstring \<Rightarrow> form" where
  "handlePhoneChange f v = f\<lparr>form_phoneDisplay := formatPhoneDisplay v\<rparr>"

text \<open>The \<^verbatim>\<open>field\<close> argument of \<^verbatim>\<open>validateField\<close>: the five names of the
  \<^verbatim>\<open>switch\<close>, and any other string (the \<^verbatim>\<open>default\<close> branch).\<close>

datatype field = title_field | message_field | phone_number_field | date_field | time_field
  | other_field

definition validateField :: "field \<Rightarrow> jsstring \<Rightarrow> jsstring option" where
  "validateField fld v =
     (case fld of
        title_field \<Rightarrow>
          if js_trim v = [] then Some (js ''Title is required'')
          else if length v > 100 then Some (js ''Title must be under 100 characters'')
          else None
      | message_field \<Rightarrow>
          if js_trim v = [] then Some (js ''Message is required'') else None
      | phone_number_field \<Rightarrow>
          (let e164 = parsePhoneToE164 v in
           if e164 = [] \<or> e164 = js ''+'' then Some (js ''Phone number is required'')
           else if \<not> test_e164 e164 then Some (js ''Enter a valid phone number'')
           else None)
      | date_field \<Rightarrow> if v = [] then Some (js ''Date is required'') else None
      | time_field \<Rightarrow> if v = [] then Some (js ''Time is required'') else None
      | other_field \<Rightarrow> None)"

definition validateDateTime :: "'d env \<Rightarrow> form \<Rightarrow> jsstring option" where
  "validateDateTime env f =
     (if form_date f = [] \<or> form_time f = [] then None
      else
        (let scheduled = newDate env (form_date f @ js ''T'' @ form_time f) in
         if leNow env scheduled then Some (js ''Scheduled time must be in the future'')
         else None))"

record FormErrors =
  errors_title :: "jsstring option"
  errors_message :: "jsstring option"
  errors_phone_number :: "jsstring option"
  errors_date :: "jsstring option"
  errors_time :: "jsstring option"

text \<open>\<open>validateForm\<close> returns the new \<^verbatim>\<open>errors\<close> state and its boolean result.\<close>

definition validateForm :: "'d env \<Rightarrow> form \<Rightarrow> FormErrors \<times> bool" where
  "validateForm env f =
     (let newErrors =
        \<lparr> errors_title = validateField title_field (form_title f),
          errors_message = validateField message_field (form_message f),
          errors_phone_number = validateField phone_number_field (form_phoneDisplay f),
          errors_date = js_or (validateField date_field (form_date f)) (validateDateTime env f),
          errors_time = validateField time_field (form_time f) \<rparr>
      in (newErrors,
          \<not> list_ex truthy
             [errors_title newErrors, errors_message newErrors, errors_phone_number newErrors,
              errors_date newErrors, errors_time newErrors]))"

text \<open>
  What a submission does: nothing but showing the errors (\<open>Blocked\<close>), a RangeError
  thrown by \<^verbatim>\<open>toISOString\<close> before any request is made (\<open>Threw\<close>), or one request.
\<close>

datatype submit_result = Blocked FormErrors | Threw | Mutate mutation

definition handleSubmit :: "'d env \<Rightarrow> form \<Rightarrow> submit_result" where
  "handleSubmit env f =
     (if \<not> snd (validateForm env f) then Blocked (fst (validateForm env f))
      else
        (let scheduledAt = newDate env (form_date f @ js ''T'' @ form_time f);
             phoneNumber = parsePhoneToE164 (form_phoneDisplay f)
         in case toISOString env scheduledAt of
              None \<Rightarrow> Threw
            | Some isoString \<Rightarrow>
                (let data =
                   \<lparr> data_title = js_trim (form_title f),
                     data_message = js_trim (form_message f),
                     data_phone_number = phoneNumber,
                     data_scheduled_at = isoString,
                     data_timezone = form_timezone f \<rparr>
                 in case form_reminder f of
                      Some r \<Rightarrow> Mutate (updateReminder (reminder_id r) data)
                    | None \<Rightarrow> Mutate (createReminder data))))"

text \<open>The phone number a submission sends, if it sends one.\<close>

fun submitted_phone :: "submit_result \<Rightarrow> jsstring option" where
  "submitted_phone (Mutate (createReminder d)) = Some (data_phone_number d)"
| "submitted_phone (Mutate (updateReminder i d)) = Some (data_phone_number d)"
| "submitted_phone _ = None"


section \<open>The reminder card (reminder-card.tsx)\<close>

text \<open>
  \<^verbatim>\<open>s.replace(/\d(?=.{4})/g, "\<bullet>")\<close>: scanning from the left, a digit is replaced by
  the bullet U+2022 when the four code units after it exist and none is a line
  terminator (the lookahead reads the subject string and consumes nothing).
\<close>

definition bullet :: jschar where
  "bullet = 8226"

definition lookahead4 :: "jsstring \<Rightarrow> bool" where
  "lookahead4 cs \<longleftrightarrow> 4 \<le> length cs \<and> \<not> list_ex is_line_terminator (take 4 cs)"

fun mask_digits :: "jsstring \<Rightarrow> jsstring" where
  "mask_digits [] = []"
| "mask_digits (c # cs) =
     (if is_digit c \<and> lookahead4 cs then bullet else c) # mask_digits cs"

definition maskPhone :: "jsstring \<Rightarrow> jsstring" where
  "maskPhone phone =
     (if length phone \<le> 6 then phone
      else mask_digits (js_slice phone 0 (- 4)) @ js_slice_from phone (- 4))"

datatype icon = Timer | CheckCircle2 | XCircle

record statusConfig =
  label :: jsstring
  icon :: icon
  className :: jsstring

fun getStatusConfig :: "status \<Rightarrow> statusConfig" where
  "getStatusConfig scheduled =
     \<lparr> label = js ''Scheduled'', icon = Timer,
       className = js ''bg-sky-100 text-sky-700 border-sky-200'' \<rparr>"
| "getStatusConfig completed =
     \<lparr> label = js ''Completed'', icon = CheckCircle2,
       className = js ''bg-emerald-100 text-emerald-700 border-emerald-200'' \<rparr>"
| "getStatusConfig failed =
     \<lparr> label = js ''Failed'', icon = XCircle,
       className = js ''bg-red-100 text-red-700 border-red-200'' \<rparr>"

text \<open>
  \<^verbatim>\<open>useCountdown\<close>: the value of \<^verbatim>\<open>timeLeft\<close> once the effect has run (the effect
  runs again every second with the clock of that moment, which is the environment's),
  or the error the effect throws.
\<close>

definition useCountdown :: "'d env \<Rightarrow> 'd \<Rightarrow> bool \<Rightarrow> js_error + jsstring" where
  "useCountdown env targetDate enabled =
     (if \<not> enabled then Inr []
      else if isPast env targetDate then Inr (js ''Processing...'')
      else
        (case formatDistanceToNow env targetDate of
           None \<Rightarrow> Inl RangeError
         | Some distance \<Rightarrow> Inr distance))"

text \<open>
  What the card shows: the texts of its rows, the two optional banners, the buttons of
  its action row, and the edit dialog: \<open>None\<close> while \<^verbatim>\<open>isEditOpen\<close> is false, and the
  state of the mounted \<^verbatim>\<open>ReminderForm\<close> while it is true.
\<close>

datatype action = Edit | Delete

record card_view =
  view_title :: jsstring
  view_message :: jsstring
  view_badge :: statusConfig
  view_date :: jsstring
  view_time :: jsstring
  view_phone :: jsstring
  view_countdown :: "jsstring option"
  view_error :: "jsstring option"
  view_actions :: "action list"
  view_edit_dialog :: "form option"

text \<open>
  The card for a reminder and a dialog state. The render calls \<^verbatim>\<open>toZonedTime\<close> and
  \<^verbatim>\<open>format\<close>, and the countdown effect, which runs after it, calls
  \<^verbatim>\<open>formatDistanceToNow\<close>; when one of them throws, nothing is shown. The dialog and its form are outside the status guard
  of the Edit button: an open form is shown whatever the status is.
\<close>

definition ReminderCard :: "'d env \<Rightarrow> Reminder \<Rightarrow> form option \<Rightarrow> js_error + card_view" where
  "ReminderCard env reminder editForm =
     (let statusConfig = getStatusConfig (status reminder);
          utcDate = parseAsUTC env (scheduled_at reminder)
      in case toZonedTime env utcDate (timezone reminder) of
           None \<Rightarrow> Inl RangeError
         | Some displayDate \<Rightarrow>
             (case format env displayDate (js ''MMM d, yyyy'') of
                None \<Rightarrow> Inl RangeError
              | Some dateText \<Rightarrow>
                  (case format env displayDate (js ''h:mm a'') of
                     None \<Rightarrow> Inl RangeError
                   | Some timeText \<Rightarrow>
                       (case useCountdown env utcDate (status reminder = scheduled) of
                          Inl e \<Rightarrow> Inl e
                        | Inr countdown \<Rightarrow>
                            Inr \<lparr> view_title = title reminder,
                                  view_message = message reminder,
                                  view_badge = statusConfig,
                                  view_date = dateText,
                                  view_time = timeText,
                                  view_phone = maskPhone (phone_number reminder),
                                  view_countdown =
                                    (if status reminder = scheduled \<and> countdown \<noteq> [] then
                                       Some (if countdown = js ''Processing...'' then countdown
                                             else js ''Calls in '' @ countdown)
                                     else None),
                                  view_error =
                                    (if status reminder = failed \<and>
                                        truthy (error_message reminder)
                                     then error_message reminder else None),
                                  view_actions =
                                    (if status reminder = scheduled then [Edit] else []) @
                                    [Delete],
                                  view_edit_dialog = editForm \<rparr>))))"


subsection \<open>A sample environment\<close>

text \<open>
  An environment for running the model on concrete inputs. A \<^verbatim>\<open>Date\<close> object is
  represented by the string it was built from, and the Invalid Date that the zone
  conversion answers with by the string \<^verbatim>\<open>Invalid Date\<close>. A date is valid when its
  first twenty characters have the shape \<^verbatim>\<open>YYYY-MM-DDTHH:MM:SSZ\<close>, or when it is a
  local date and time of the shape \<^verbatim>\<open>YYYY-MM-DDTHH:MM\<close>; the known zones are
  Europe/Paris, Asia/Tokyo and UTC. Formatting a valid date returns its string with the
  pattern attached and throws on any other; every date is in the future.
\<close>

definition has_shape :: "jsstring \<Rightarrow> jsstring \<Rightarrow> bool" where
  "has_shape s shape \<longleftrightarrow>
     list_all2 (\<lambda>c t. if is_digit t then is_digit c else c = t) s shape"

definition sample_valid_date :: "jsstring \<Rightarrow> bool" where
  "sample_valid_date d \<longleftrightarrow>
     has_shape (take 20 d) (js ''0000-00-00T00:00:00Z'') \<or> has_shape d (js ''0000-00-00T00:00'')"

definition sample_zones :: "jsstring list" where
  "sample_zones = [js ''Europe/Paris'', js ''Asia/Tokyo'', js ''UTC'']"

definition sample_env :: "jsstring env" where
  "sample_env =
     \<lparr> newDate = (\<lambda>s. s),
       leNow = (\<lambda>d. False),
       toISOString = (\<lambda>d. if sample_valid_date d then Some d else None),
       timeZone = js ''Europe/Paris'',
       toZonedTime =
         (\<lambda>d tz. Some (if sample_valid_date d \<and> tz \<in> set sample_zones
                        then d @ js '' in '' @ tz else js ''Invalid Date'')),
       format = (\<lambda>d p. if sample_valid_date d then Some (d @ js '' as '' @ p) else None),
       isPast = (\<lambda>d. False),
       formatDistanceToNow =
         (\<lambda>d. if sample_valid_date d then Some (js ''5 minutes'') else None) \<rparr>"

definition sample_form :: form where
  "sample_form =
     \<lparr> form_reminder = None,
       form_title = js '' Dentist '',
       form_message = js ''Remember the appointment'',
       form_phoneDisplay = js ''+1 (555) 123-4567'',
       form_date = js ''2030-01-15'',
       form_time = js ''09:30'',
       form_timezone = js ''Europe/Paris'' \<rparr>"

definition sample_reminder :: Reminder where
  "sample_reminder =
     \<lparr> reminder_id = 7,
       title = js ''Dentist'',
       message = js ''Remember the appointment'',
       phone_number = js ''+15551234567'',
       scheduled_at = js ''2030-01-15T08:30:00'',
       timezone = js ''Europe/Paris'',
       status = scheduled,
       call_id = None,
       error_message = None,
       created_at = js ''2029-12-01T10:00:00'',
       updated_at = js ''2029-12-01T10:00:00'' \<rparr>"

section \<open>The scheduling and delivery engine\<close>

text \<open>
  The back end (\<^verbatim>\<open>backend/models.py\<close>, \<^verbatim>\<open>backend/scheduler.py\<close>,
  \<^verbatim>\<open>backend/main.py\<close>) is named by the README's project structure and is not among
  the source files. Its data model and operations are modelled here from the
  specification. Instants are integers (a count of time units since an epoch), strings
  are Python strings.
\<close>

text \<open>Modelled from the spec: the status of a reminder (section 3, field \<^verbatim>\<open>status\<close>);
  \<^verbatim>\<open>backend/models.py\<close> is missing.\<close>

datatype Status = Scheduled | Completed | Failed

text \<open>Modelled from the spec: the Reminder entity of section 3 (the row of
  \<^verbatim>\<open>backend/models.py\<close>, which is missing), with the time zone kept as metadata.\<close>

record ReminderRow =
  rid :: nat
  rtitle :: string
  rmessage :: string
  phoneNumber :: string
  scheduledAt :: int
  rtimezone :: string
  rstatus :: Status
  callId :: "string option"
  errorMessage :: "string option"
  createdAt :: int
  updatedAt :: int

text \<open>Modelled from the spec: the three status/field invariants of section 3, for one
  reminder; no code that states them is among the source files.\<close>

definition row_inv :: "ReminderRow \<Rightarrow> bool" where
  "row_inv r =
     (case rstatus r of
        Scheduled \<Rightarrow> callId r = None \<and> errorMessage r = None
      | Completed \<Rightarrow> callId r \<noteq> None \<and> errorMessage r = None
      | Failed \<Rightarrow> callId r = None \<and> errorMessage r \<noteq> None)"

text \<open>Modelled from the spec: what the external API writes on create and edit (the
  fields of section 3 a user supplies); \<^verbatim>\<open>backend/schemas.py\<close> is missing.\<close>

record ReminderInput =
  in_title :: string
  in_message :: string
  in_phoneNumber :: string
  in_scheduledAt :: int
  in_timezone :: string

text \<open>Modelled from the spec: the outcome of a conditional write of section 4.1
  (success, the no-op reported as already handled, or no such reminder).\<close>

datatype write_result = Success | AlreadyHandled | NotFound

text \<open>Modelled from the spec: how a conditional write reports (section 4.1); the
  repository code is missing. The store is the list of the table's rows.\<close>

definition write_report :: "nat \<Rightarrow> ReminderRow list \<Rightarrow> write_result" where
  "write_report i rows =
     (if list_ex (\<lambda>r. rid r = i \<and> rstatus r = Scheduled) rows then Success
      else if list_ex (\<lambda>r. rid r = i) rows then AlreadyHandled
      else NotFound)"

text \<open>Modelled from the spec: \<^verbatim>\<open>FindDue(now)\<close> of section 4.1, all reminders with
  status Scheduled and \<^verbatim>\<open>scheduledAt\<close> at most \<open>now\<close>, ordered by \<^verbatim>\<open>scheduledAt\<close>
  ascending; the query of \<^verbatim>\<open>backend/scheduler.py\<close> is missing.\<close>

definition FindDue :: "int \<Rightarrow> ReminderRow list \<Rightarrow> ReminderRow list" where
  "FindDue now rows =
     sort_key scheduledAt (filter (\<lambda>r. rstatus r = Scheduled \<and> scheduledAt r \<le> now) rows)"

text \<open>Modelled from the spec: \<^verbatim>\<open>MarkCompleted(id, callId)\<close> of section 4.1, one
  update-where-status-equals (section 9) that sets the status to Completed, sets the call
  identifier, clears the error message and bumps \<^verbatim>\<open>updatedAt\<close>, and is a no-op when the
  reminder is no longer Scheduled; the repository code is missing.\<close>

definition MarkCompleted ::
    "int \<Rightarrow> nat \<Rightarrow> string \<Rightarrow> ReminderRow list \<Rightarrow> write_result \<times> ReminderRow list" where
  "MarkCompleted now i cid rows =
     (write_report i rows,
      map (\<lambda>r. if rid r = i \<and> rstatus r = Scheduled
                then r\<lparr>rstatus := Completed, callId := Some cid, errorMessage := None,
                       updatedAt := now\<rparr>
                else r) rows)"

text \<open>Modelled from the spec: \<^verbatim>\<open>MarkFailed(id, reason)\<close> of section 4.1, with the same
  conditional write, setting the status to Failed and the error message to the reason;
  the repository code is missing.\<close>

definition MarkFailed ::
    "int \<Rightarrow> nat \<Rightarrow> string \<Rightarrow> ReminderRow list \<Rightarrow> write_result \<times> ReminderRow list" where
  "MarkFailed now i why rows =
     (write_report i rows,
      map (\<lambda>r. if rid r = i \<and> rstatus r = Scheduled
                then r\<lparr>rstatus := Failed, errorMessage := Some why, updatedAt := now\<rparr>
                else r) rows)"

text \<open>Modelled from the spec: creation by the external API (section 3, lifecycle): a
  fresh identifier, status Scheduled, no call identifier and no error message; the route
  of \<^verbatim>\<open>backend/main.py\<close> is missing.\<close>

definition Create :: "int \<Rightarrow> ReminderInput \<Rightarrow> ReminderRow list \<Rightarrow> ReminderRow list" where
  "Create now inp rows =
     rows @
     [\<lparr> rid = Suc (fold max (map rid rows) 0),
        rtitle = in_title inp, rmessage = in_message inp, phoneNumber = in_phoneNumber inp,
        scheduledAt = in_scheduledAt inp, rtimezone = in_timezone inp,
        rstatus = Scheduled, callId = None, errorMessage = None,
        createdAt = now, updatedAt = now \<rparr>]"

text \<open>Modelled from the spec: the user's edit (section 3): defined for a reminder that
  is Scheduled, which it leaves Scheduled with the error message cleared and
  \<^verbatim>\<open>updatedAt\<close> bumped; an edit of a Completed or Failed reminder is rejected and
  changes nothing. The route of \<^verbatim>\<open>backend/main.py\<close> is missing.\<close>

definition EditReminder ::
    "int \<Rightarrow> nat \<Rightarrow> ReminderInput \<Rightarrow> ReminderRow list \<Rightarrow> ReminderRow list" where
  "EditReminder now i inp rows =
     map (\<lambda>r. if rid r = i \<and> rstatus r = Scheduled
               then r\<lparr>rtitle := in_title inp, rmessage := in_message inp,
                      phoneNumber := in_phoneNumber inp, scheduledAt := in_scheduledAt inp,
                      rtimezone := in_timezone inp, rstatus := Scheduled,
                      errorMessage := None, updatedAt := now\<rparr>
               else r) rows"

text \<open>Modelled from the spec: the explicit edit that resets a reminder to Scheduled
  (section 3: only an explicit edit may reset it; the error message is cleared whenever
  a reminder re-enters Scheduled, and the call identifier is null unless a dispatch
  succeeded, as the invariant for Scheduled requires). The route of
  \<^verbatim>\<open>backend/main.py\<close> is missing.\<close>

definition ResetReminder ::
    "int \<Rightarrow> nat \<Rightarrow> ReminderInput \<Rightarrow> ReminderRow list \<Rightarrow> ReminderRow list" where
  "ResetReminder now i inp rows =
     map (\<lambda>r. if rid r = i
               then r\<lparr>rtitle := in_title inp, rmessage := in_message inp,
                      phoneNumber := in_phoneNumber inp, scheduledAt := in_scheduledAt inp,
                      rtimezone := in_timezone inp, rstatus := Scheduled,
                      callId := None, errorMessage := None, updatedAt := now\<rparr>
               else r) rows"

text \<open>Modelled from the spec: deletion by the user, at any status (section 3); the
  route of \<^verbatim>\<open>backend/main.py\<close> is missing.\<close>

definition DeleteReminder :: "nat \<Rightarrow> ReminderRow list \<Rightarrow> ReminderRow list" where
  "DeleteReminder i rows = filter (\<lambda>r. rid r \<noteq> i) rows"

text \<open>Modelled from the spec: the mutations of the reminder store (section 3,
  lifecycle), each with the instant at which it is applied.\<close>

datatype store_op =
  OpCreate ReminderInput
| OpEdit nat ReminderInput
| OpReset nat ReminderInput
| OpDelete nat
| OpMarkCompleted nat string
| OpMarkFailed nat string

fun apply_op :: "int \<Rightarrow> store_op \<Rightarrow> ReminderRow list \<Rightarrow> ReminderRow list" where
  "apply_op now (OpCreate inp) rows = Create now inp rows"
| "apply_op now (OpEdit i inp) rows = EditReminder now i inp rows"
| "apply_op now (OpReset i inp) rows = ResetReminder now i inp rows"
| "apply_op now (OpDelete i) rows = DeleteReminder i rows"
| "apply_op now (OpMarkCompleted i cid) rows = snd (MarkCompleted now i cid rows)"
| "apply_op now (OpMarkFailed i why) rows = snd (MarkFailed now i why rows)"

fun run_ops :: "(int \<times> store_op) list \<Rightarrow> ReminderRow list \<Rightarrow> ReminderRow list" where
  "run_ops [] rows = rows"
| "run_ops ((now, op) # ops) rows = run_ops ops (apply_op now op rows)"

subsection \<open>The call provider port and the dispatch unit\<close>

text \<open>Modelled from the spec: the provider configuration of section 6, an API key and
  an outbound-number identifier, each of which may be absent; \<^verbatim>\<open>backend/scheduler.py\<close>
  is missing.\<close>

record provider_config =
  apiKey :: "string option"
  phoneNumberId :: "string option"

text \<open>Modelled from the spec: the failure causes of sections 4.2 and 7, each with its
  reason.\<close>

datatype CallFailure =
  ConfigurationError string
| ProviderRejected string
| TransportError string

fun reason :: "CallFailure \<Rightarrow> string" where
  "reason (ConfigurationError why) = why"
| "reason (ProviderRejected why) = why"
| "reason (TransportError why) = why"

text \<open>Modelled from the spec: what the network and the provider do with one request
  (the environment of section 4.2): the call is accepted with a call identifier, declined
  with a reason, the transport fails with a reason, or something unexpected is raised.\<close>

datatype provider_reply = Accepted string | Declined string | Unreachable string | Crashed

text \<open>Modelled from the spec: the result of \<^verbatim>\<open>PlaceCall\<close> (section 4.2), or an
  exception raised while placing the call (section 4.3, step 4).\<close>

datatype call_outcome = CallOk string | CallFailed CallFailure | Raised

text \<open>Modelled from the spec: the reason stored when the configuration is absent
  (sections 4.2 and 7 ask for an explanatory reason and fix no text).\<close>

definition config_missing_reason :: string where
  "config_missing_reason = ''Call provider configuration is missing''"

text \<open>Modelled from the spec: the generic reason stored for an unexpected error
  (section 4.3, step 4, fixes no text).\<close>

definition generic_reason :: string where
  "generic_reason = ''Unexpected error while placing the call''"

text \<open>Modelled from the spec: \<^verbatim>\<open>PlaceCall(phoneNumber, message)\<close> of section 4.2. The
  second component is the log of the requests sent over the network: absent
  configuration fails at once and sends nothing. \<^verbatim>\<open>backend/scheduler.py\<close> is
  missing.\<close>

definition PlaceCall ::
    "provider_config \<Rightarrow> (string \<times> string \<Rightarrow> provider_reply) \<Rightarrow> string \<Rightarrow> string \<Rightarrow>
     (string \<times> string) list \<Rightarrow> call_outcome \<times> (string \<times> string) list" where
  "PlaceCall cfg net phone msg sent =
     (if apiKey cfg = None \<or> phoneNumberId cfg = None
      then (CallFailed (ConfigurationError config_missing_reason), sent)
      else
        (case net (phone, msg) of
           Accepted cid \<Rightarrow> CallOk cid
         | Declined why \<Rightarrow> CallFailed (ProviderRejected why)
         | Unreachable why \<Rightarrow> CallFailed (TransportError why)
         | Crashed \<Rightarrow> Raised,
         sent @ [(phone, msg)]))"

text \<open>Modelled from the spec: the state the scheduler acts on: the reminder store, the
  requests sent to the provider so far, and the identifiers of the reminders whose
  dispatch has started, in start order.\<close>

record world =
  store :: "ReminderRow list"
  calls :: "(string \<times> string) list"
  dispatched :: "nat list"

text \<open>Modelled from the spec: the Dispatch Unit of section 4.3 for one due reminder:
  place the call, then MarkCompleted on success, MarkFailed with the failure's reason
  on failure, and MarkFailed with a generic reason when anything was raised. The result
  of the write (a conflict or a missing row) is consumed silently (section 7).
  \<^verbatim>\<open>backend/scheduler.py\<close> is missing.\<close>

definition Dispatch ::
    "provider_config \<Rightarrow> (string \<times> string \<Rightarrow> provider_reply) \<Rightarrow> int \<Rightarrow> ReminderRow \<Rightarrow>
     world \<Rightarrow> world" where
  "Dispatch cfg net now r w =
     (let (outcome, sent) = PlaceCall cfg net (phoneNumber r) (rmessage r) (calls w);
          rows =
            (case outcome of
               CallOk cid \<Rightarrow> snd (MarkCompleted now (rid r) cid (store w))
             | CallFailed f \<Rightarrow> snd (MarkFailed now (rid r) (reason f) (store w))
             | Raised \<Rightarrow> snd (MarkFailed now (rid r) generic_reason (store w)))
      in \<lparr> store = rows, calls = sent, dispatched = dispatched w @ [rid r] \<rparr>)"

text \<open>Modelled from the spec: one tick of the Scheduler Loop (section 4.4): read the
  due reminders at \<open>now\<close>, then run the Dispatch Unit over the returned sequence in its
  order. \<^verbatim>\<open>backend/scheduler.py\<close> is missing.\<close>

definition Tick ::
    "provider_config \<Rightarrow> (string \<times> string \<Rightarrow> provider_reply) \<Rightarrow> int \<Rightarrow> world \<Rightarrow> world" where
  "Tick cfg net now w = foldl (\<lambda>w' r. Dispatch cfg net now r w') w (FindDue now (store w))"

subsection \<open>A sample store\<close>

text \<open>Two reminders for running the engine on concrete inputs: the first is due at
  instant 100, the second at 50, and a configuration with no API key.\<close>

definition sample_input :: "int \<Rightarrow> ReminderInput" where
  "sample_input t =
     \<lparr> in_title = ''Dentist'', in_message = ''Remember the appointment'',
       in_phoneNumber = ''+15551234567'', in_scheduledAt = t, in_timezone = ''Europe/Paris'' \<rparr>"

definition sample_rows :: "ReminderRow list" where
  "sample_rows = run_ops [(0, OpCreate (sample_input 100)), (1, OpCreate (sample_input 50))] []"

definition sample_world :: world where
  "sample_world = \<lparr> store = sample_rows, calls = [], dispatched = [] \<rparr>"

definition no_config :: provider_config where
  "no_config = \<lparr> apiKey = None, phoneNumberId = None \<rparr>"

definition sample_config :: provider_config where
  "sample_config = \<lparr> apiKey = Some ''key'', phoneNumberId = Some ''number-1'' \<rparr>"

section \<open>Properties of the reminder form and the reminder card\<close>

subsection \<open>Formatting keeps the first eleven digits\<close>

lemma js_slice_nonneg:
  "0 \<le> b \<Longrightarrow> 0 \<le> e \<Longrightarrow> js_slice s b e = take (nat e - nat b) (drop (nat b) s)"
  by (auto simp: js_slice_def Let_def min_def nat_diff_distrib')

lemma js_slice_from_nonneg: "0 \<le> b \<Longrightarrow> js_slice_from s b = drop (nat b) s"
  by (simp add: js_slice_from_def js_slice_nonneg)

lemma filter_take_digits: "filter is_digit (take k (drop j (filter is_digit v))) =
    take k (drop j (filter is_digit v))"
  by (rule filter_True) (auto dest!: in_set_takeD in_set_dropD)

lemma filter_drop_digits: "filter is_digit (drop j (filter is_digit v)) =
    drop j (filter is_digit v)"
  by (rule filter_True) (auto dest!: in_set_dropD)

lemma take_pieces:
  "take 1 ds @ take 3 (drop 1 ds) @ take 3 (drop 4 ds) @ take 4 (drop 7 ds) = take 11 ds"
proof -
  have "take 11 ds = take 7 ds @ take 4 (drop 7 ds)"
    using take_add [of 7 4 ds] by simp
  also have "take 7 ds = take 4 ds @ take 3 (drop 4 ds)"
    using take_add [of 4 3 ds] by simp
  also have "take 4 ds = take 1 ds @ take 3 (drop 1 ds)"
    using take_add [of 1 3 ds] by simp
  finally show ?thesis by simp
qed

lemma strip_formatPhoneDisplay:
  "strip_non_digits (formatPhoneDisplay v) = take 11 (strip_non_digits v)"
proof -
  let ?ds = "filter is_digit v"
  have sep: "filter is_digit (js ''+'') = []" "filter is_digit (js '' '') = []"
    "filter is_digit (js '' ('') = []" "filter is_digit (js '') '') = []"
    "filter is_digit (js ''-'') = []"
    by (simp_all add: js_def is_digit_def)
  consider "length ?ds = 0" | "length ?ds = 1" | "2 \<le> length ?ds" "length ?ds \<le> 4"
    | "5 \<le> length ?ds" "length ?ds \<le> 7" | "8 \<le> length ?ds"
    by linarith
  then show ?thesis
  proof cases
    case 1
    then show ?thesis
      by (simp add: formatPhoneDisplay_def Let_def strip_non_digits_def sep)
  next
    case 2
    then show ?thesis
      by (simp add: formatPhoneDisplay_def Let_def strip_non_digits_def sep)
  next
    case 3
    have "take 1 ?ds @ drop 1 ?ds = take 11 ?ds"
      using 3 by simp
    with 3 show ?thesis
      by (simp add: formatPhoneDisplay_def Let_def strip_non_digits_def sep js_slice_nonneg
          js_slice_from_nonneg filter_take_digits [of _ 0 v, simplified] filter_drop_digits)
  next
    case 4
    have "take 1 ?ds @ take 3 (drop 1 ?ds) @ drop 4 ?ds = take 4 ?ds @ drop 4 ?ds"
      using take_add [of 1 3 ?ds] by simp
    also have "\<dots> = take 11 ?ds"
      using 4 by simp
    finally show ?thesis
      using 4
      by (simp add: formatPhoneDisplay_def Let_def strip_non_digits_def sep js_slice_nonneg
          js_slice_from_nonneg filter_take_digits filter_take_digits [of _ 0 v, simplified]
          filter_drop_digits)
  next
    case 5
    then show ?thesis
      using take_pieces [of ?ds]
      by (simp add: formatPhoneDisplay_def Let_def strip_non_digits_def sep js_slice_nonneg
          filter_take_digits filter_take_digits [of _ 0 v, simplified])
  qed
qed

subsection \<open>Parsing what the formatter shows\<close>

lemma js_plus: "js ''+'' = [43]"
  by (simp add: js_def)

lemma plus_not_digit: "\<not> is_digit 43"
  by (simp add: is_digit_def)

lemma nonzero_digit_is_digit: "is_nonzero_digit d \<Longrightarrow> is_digit d"
  by (auto simp: is_nonzero_digit_def is_digit_def elim: order_trans [rotated])

lemma parse_format:
  "parsePhoneToE164 (formatPhoneDisplay s) =
     (if strip_non_digits s = [] then [] else js ''+'' @ take 11 (strip_non_digits s))"
  by (simp add: parsePhoneToE164_def Let_def strip_formatPhoneDisplay)

lemma strip_e164:
  assumes "test_e164 p"
  shows "strip_non_digits p = tl p" and "7 \<le> length (tl p)" and "p = 43 # tl p"
proof -
  from assms obtain d ds where p: "p = 43 # d # ds" and d: "is_nonzero_digit d"
    and ds: "list_all is_digit ds" and len: "6 \<le> length ds"
    by (cases p rule: test_e164.cases) auto
  from ds have "filter is_digit ds = ds"
    by (simp add: list_all_iff)
  with p d show "strip_non_digits p = tl p"
    by (simp add: strip_non_digits_def plus_not_digit nonzero_digit_is_digit)
  from p len show "7 \<le> length (tl p)" by simp
  from p show "p = 43 # tl p" by simp
qed

text \<open>
  The round trip of a string without digits: the formatter shows a lone plus sign, and
  the parser returns the empty string for it, not the plus sign.
\<close>

theorem phone_round_trip_counterexample:
  "formatPhoneDisplay [] = js ''+'' \<and>
   parsePhoneToE164 (formatPhoneDisplay []) = [] \<and>
   parsePhoneToE164 (formatPhoneDisplay []) \<noteq>
     js ''+'' @ take (min (length (strip_non_digits [])) 11) (strip_non_digits [])"
  by (simp add: parsePhoneToE164_def formatPhoneDisplay_def strip_non_digits_def js_def
      is_digit_def)

text \<open>
  C8 (as amended). For every input string \<open>s\<close> with at least one digit,
  \<^verbatim>\<open>parsePhoneToE164(formatPhoneDisplay(s))\<close> is the plus sign followed by the first
  \<open>min n 11\<close> of the \<open>n\<close> digits of \<open>s\<close>; for a string without digits it is the
  empty string. The formatter keeps eleven digits at most, so a number that the
  validation pattern accepts and that has twelve to fifteen digits comes back cut to
  its first eleven digits, and changed.
\<close>

theorem phone_round_trip:
  "parsePhoneToE164 (formatPhoneDisplay s) =
     (if strip_non_digits s = [] then []
      else js ''+'' @ take (min (length (strip_non_digits s)) 11) (strip_non_digits s)) \<and>
   (test_e164 p \<and> 12 < length p \<longrightarrow>
      parsePhoneToE164 (formatPhoneDisplay p) = take 12 p \<and>
      parsePhoneToE164 (formatPhoneDisplay p) \<noteq> p)"
proof (intro conjI impI)
  show "parsePhoneToE164 (formatPhoneDisplay s) =
     (if strip_non_digits s = [] then []
      else js ''+'' @ take (min (length (strip_non_digits s)) 11) (strip_non_digits s))"
    by (simp add: parse_format min_def)
next
  assume a: "test_e164 p \<and> 12 < length p"
  then have e: "test_e164 p" and l: "12 < length p" by simp_all
  note s = strip_e164 [OF e]
  from s(2) have "0 < length (tl p)" by linarith
  then have ne: "tl p \<noteq> []" by (metis length_greater_0_conv)
  have "parsePhoneToE164 (formatPhoneDisplay p) = 43 # take 11 (tl p)"
    using ne by (simp add: parse_format s(1) js_plus)
  also have "\<dots> = take 12 (43 # tl p)" by simp
  also have "\<dots> = take 12 p" using s(3) by simp
  finally show t: "parsePhoneToE164 (formatPhoneDisplay p) = take 12 p" .
  have "length (take 12 p) \<noteq> length p" using l by simp
  then have "take 12 p \<noteq> p" by metis
  with t show "parsePhoneToE164 (formatPhoneDisplay p) \<noteq> p" by simp
qed

text \<open>The round trip of a string with fourteen digits, and of a valid number of twelve.\<close>

theorem phone_round_trip_witness:
  "parsePhoneToE164 (formatPhoneDisplay (js ''(555) 123-4567 ext. 8901'')) = js ''+55512345678'' \<and>
   test_e164 (js ''+123456789012'') \<and>
   parsePhoneToE164 (formatPhoneDisplay (js ''+123456789012'')) = js ''+12345678901''"
proof -
  have a: "strip_non_digits (js ''(555) 123-4567 ext. 8901'') = js ''55512345678901''"
    by code_simp
  have b: "test_e164 (js ''+123456789012'') \<and> 12 < length (js ''+123456789012'')"
    by code_simp
  have c: "take 12 (js ''+123456789012'') = js ''+12345678901''"
    by code_simp
  have d: "take (min (length (js ''55512345678901'')) 11) (js ''55512345678901'') = js ''55512345678''"
       "js ''+'' @ js ''55512345678'' = js ''+55512345678''" "js ''55512345678901'' \<noteq> []"
    by code_simp+
  show ?thesis
    using phone_round_trip [of "js ''(555) 123-4567 ext. 8901''" "js ''+123456789012''"] b
    by (simp only: a c d if_False simp_thms)
qed



subsection \<open>What the form submits\<close>

lemma validateField_phone_truthy:
  "\<not> test_e164 (parsePhoneToE164 v) \<Longrightarrow> truthy (validateField phone_number_field v)"
  by (auto simp: validateField_def Let_def truthy_def js_def)

lemma validateForm_ok_phone:
  "snd (validateForm env f) \<Longrightarrow> test_e164 (parsePhoneToE164 (form_phoneDisplay f))"
  using validateField_phone_truthy [of "form_phoneDisplay f"]
  by (auto simp: validateForm_def Let_def)

lemma submitted_phone_cases:
  "submitted_phone (handleSubmit env f) = Some p \<Longrightarrow>
     snd (validateForm env f) \<and> p = parsePhoneToE164 (form_phoneDisplay f)"
  by (auto simp: handleSubmit_def Let_def split: if_splits option.splits)

lemma e164_shape:
  assumes "test_e164 p"
  shows "\<exists>d ds. p = 43 # d # ds \<and> is_nonzero_digit d \<and> list_all is_digit ds \<and>
           6 \<le> length ds \<and> length ds \<le> 14"
  using assms by (cases p rule: test_e164.cases) auto

lemma parse_e164_digits:
  assumes "test_e164 (parsePhoneToE164 v)"
  shows "parsePhoneToE164 v = js ''+'' @ strip_non_digits v"
  using assms by (auto simp: parsePhoneToE164_def Let_def)

text \<open>
  C5. Every phone number the form submits, on create or on edit, is the plus sign
  followed only by digits: it is \<^verbatim>\<open>parsePhoneToE164\<close> of the displayed value, which is
  the plus sign followed by the digits of that value with everything else removed, and
  \<^verbatim>\<open>validateForm\<close> blocks the submission unless this string matches
  \<^verbatim>\<open>^\+[1-9]\d{6,14}$\<close>: a leading plus sign, a first digit that is not zero, seven to
  fifteen digits in all.
\<close>

theorem submitted_phone_canonical:
  "(\<not> test_e164 (parsePhoneToE164 (form_phoneDisplay f)) \<longrightarrow>
      (\<exists>errs. handleSubmit env f = Blocked errs)) \<and>
   (submitted_phone (handleSubmit env f) = Some p \<longrightarrow>
      p = js ''+'' @ strip_non_digits (form_phoneDisplay f) \<and>
      test_e164 p \<and>
      list_all is_digit (strip_non_digits (form_phoneDisplay f)) \<and>
      is_nonzero_digit (hd (strip_non_digits (form_phoneDisplay f))) \<and>
      7 \<le> length (strip_non_digits (form_phoneDisplay f)) \<and>
      length (strip_non_digits (form_phoneDisplay f)) \<le> 15)"
proof (intro conjI impI)
  assume "\<not> test_e164 (parsePhoneToE164 (form_phoneDisplay f))"
  then have "\<not> snd (validateForm env f)"
    using validateForm_ok_phone by blast
  then show "\<exists>errs. handleSubmit env f = Blocked errs"
    by (simp add: handleSubmit_def)
next
  let ?ds = "strip_non_digits (form_phoneDisplay f)"
  assume "submitted_phone (handleSubmit env f) = Some p"
  then have ok: "snd (validateForm env f)" and p: "p = parsePhoneToE164 (form_phoneDisplay f)"
    using submitted_phone_cases by blast+
  from ok have t: "test_e164 (parsePhoneToE164 (form_phoneDisplay f))"
    by (rule validateForm_ok_phone)
  with p show "test_e164 p" by simp
  from parse_e164_digits [OF t] p show eq: "p = js ''+'' @ ?ds"
    by simp
  from t obtain d ds where sh: "parsePhoneToE164 (form_phoneDisplay f) = 43 # d # ds"
    "is_nonzero_digit d" "list_all is_digit ds" "6 \<le> length ds" "length ds \<le> 14"
    using e164_shape by blast
  from sh(1) eq p have ds: "?ds = d # ds"
    by (simp add: js_def)
  show "list_all is_digit ?ds"
    by (simp add: strip_non_digits_def list_all_iff)
  from ds sh show "is_nonzero_digit (hd ?ds)" by simp
  from ds sh show "7 \<le> length ?ds" by simp
  from ds sh show "length ?ds \<le> 15" by simp
qed

text \<open>A new reminder and an edited one, both typed as \<^verbatim>\<open>+1 (555) 123-4567\<close>; and a
  number of six digits, which is blocked.\<close>

theorem submitted_phone_canonical_witness:
  "submitted_phone (handleSubmit sample_env sample_form) = Some (js ''+15551234567'') \<and>
   submitted_phone
     (handleSubmit sample_env (sample_form\<lparr>form_reminder := Some sample_reminder\<rparr>)) =
     Some (js ''+15551234567'') \<and>
   test_e164 (js ''+15551234567'') \<and>
   \<not> test_e164 (parsePhoneToE164 (js ''+1 (555) 12'')) \<and>
   (\<exists>errs. handleSubmit sample_env (sample_form\<lparr>form_phoneDisplay := js ''+1 (555) 12''\<rparr>) =
      Blocked errs)"
proof -
  have a: "submitted_phone (handleSubmit sample_env sample_form) = Some (js ''+15551234567'')"
    by code_simp
  have b: "submitted_phone
     (handleSubmit sample_env (sample_form\<lparr>form_reminder := Some sample_reminder\<rparr>)) =
     Some (js ''+15551234567'')"
    by code_simp
  have c: "\<not> test_e164 (parsePhoneToE164
      (form_phoneDisplay (sample_form\<lparr>form_phoneDisplay := js ''+1 (555) 12''\<rparr>)))"
    by code_simp
  have d: "\<not> test_e164 (parsePhoneToE164 (js ''+1 (555) 12''))"
    by code_simp
  show ?thesis
    using submitted_phone_canonical [where f = sample_form and env = sample_env
        and p = "js ''+15551234567''"]
      submitted_phone_canonical
        [where f = "sample_form\<lparr>form_phoneDisplay := js ''+1 (555) 12''\<rparr>"
          and env = sample_env and p = "[]"]
      a b c d
    by blast
qed



subsection \<open>Masking a phone number\<close>

lemma length_mask_digits: "length (mask_digits p) = length p"
  by (induction p) simp_all

lemma nth_mask_digits:
  "i < length p \<Longrightarrow>
     mask_digits p ! i =
       (if is_digit (p ! i) \<and> lookahead4 (drop (Suc i) p) then bullet else p ! i)"
proof (induction p arbitrary: i)
  case Nil
  then show ?case by simp
next
  case (Cons c cs)
  then show ?case by (cases i) simp_all
qed

lemma lookahead4_prefix:
  "lookahead4 (drop (Suc i) (take m phone)) \<longleftrightarrow>
     i + 5 \<le> min m (length phone) \<and> \<not> list_ex is_line_terminator (take 4 (drop (Suc i) phone))"
proof (cases "i + 5 \<le> min m (length phone)")
  case True
  then have "take 4 (drop (Suc i) (take m phone)) = take 4 (drop (Suc i) phone)"
    by (auto simp: drop_take min_def split: if_splits)
  with True show ?thesis
    by (auto simp: lookahead4_def)
next
  case False
  then show ?thesis
    by (auto simp: lookahead4_def)
qed

lemma maskPhone_long:
  "6 < length phone \<Longrightarrow>
     maskPhone phone =
       mask_digits (take (length phone - 4) phone) @ drop (length phone - 4) phone"
  by (simp add: maskPhone_def js_slice_def js_slice_from_def Let_def nat_diff_distrib' max_def)

lemma length_maskPhone: "length (maskPhone phone) = length phone"
  by (cases "6 < length phone") (simp_all add: maskPhone_long length_mask_digits, simp add: maskPhone_def)

lemma nth_maskPhone:
  assumes "i < length phone"
  shows "maskPhone phone ! i =
           (if is_digit (phone ! i) \<and> i + 8 < length phone \<and>
               \<not> list_ex is_line_terminator (take 4 (drop (Suc i) phone))
            then bullet else phone ! i)"
proof (cases "6 < length phone")
  case False
  with assms show ?thesis
    by (simp add: maskPhone_def)
next
  case long: True
  let ?n = "length phone"
  show ?thesis
  proof (cases "i < ?n - 4")
    case True
    then have "maskPhone phone ! i = mask_digits (take (?n - 4) phone) ! i"
      using long by (simp add: maskPhone_long nth_append length_mask_digits)
    also have "\<dots> = (if is_digit (phone ! i) \<and> lookahead4 (drop (Suc i) (take (?n - 4) phone))
        then bullet else phone ! i)"
      using True by (simp add: nth_mask_digits)
    also have "lookahead4 (drop (Suc i) (take (?n - 4) phone)) \<longleftrightarrow>
        i + 8 < ?n \<and> \<not> list_ex is_line_terminator (take 4 (drop (Suc i) phone))"
      using long by (auto simp: lookahead4_prefix min_def)
    finally show ?thesis by simp
  next
    case False
    then have "maskPhone phone ! i = drop (?n - 4) phone ! (i - (?n - 4))"
      using long by (simp add: maskPhone_long nth_append length_mask_digits)
    also have "\<dots> = phone ! i"
      using False assms by simp
    finally show ?thesis
      using False by auto
  qed
qed

lemma maskPhone_last8:
  "drop (length phone - 8) (maskPhone phone) = drop (length phone - 8) phone"
  by (rule nth_equalityI) (auto simp: length_maskPhone nth_maskPhone)

text \<open>
  C9. For every phone string of at most six characters \<^verbatim>\<open>maskPhone\<close> returns the
  input unchanged. For every longer one it returns a string of the same length in which
  only digits more than eight positions from the end are replaced by the bullet: the
  character at position \<open>i\<close> is replaced exactly when it is a digit, \<open>i + 8\<close> is less
  than the length and none of the four characters after it is a line terminator (all
  such digits, in a string without line terminators). So the last eight characters of
  the output are the last eight of the input, not only the last four.
\<close>

theorem maskPhone_keeps_last_eight:
  "(length phone \<le> 6 \<longrightarrow> maskPhone phone = phone) \<and>
   length (maskPhone phone) = length phone \<and>
   (\<forall>i < length phone.
      maskPhone phone ! i =
        (if is_digit (phone ! i) \<and> i + 8 < length phone \<and>
            \<not> list_ex is_line_terminator (take 4 (drop (Suc i) phone))
         then bullet else phone ! i)) \<and>
   (\<forall>i < length phone.
      maskPhone phone ! i \<noteq> phone ! i \<longrightarrow>
        is_digit (phone ! i) \<and> i + 8 < length phone \<and> maskPhone phone ! i = bullet) \<and>
   (\<not> list_ex is_line_terminator phone \<longrightarrow>
      (\<forall>i < length phone.
         maskPhone phone ! i =
           (if is_digit (phone ! i) \<and> i + 8 < length phone then bullet else phone ! i))) \<and>
   drop (length phone - 8) (maskPhone phone) = drop (length phone - 8) phone"
proof -
  have c1: "length phone \<le> 6 \<longrightarrow> maskPhone phone = phone"
    by (simp add: maskPhone_def)
  have c2: "length (maskPhone phone) = length phone"
    by (rule length_maskPhone)
  have c3: "\<forall>i < length phone. maskPhone phone ! i =
        (if is_digit (phone ! i) \<and> i + 8 < length phone \<and>
            \<not> list_ex is_line_terminator (take 4 (drop (Suc i) phone))
         then bullet else phone ! i)"
    by (simp add: nth_maskPhone)
  have c4: "\<forall>i < length phone.
      maskPhone phone ! i \<noteq> phone ! i \<longrightarrow>
        is_digit (phone ! i) \<and> i + 8 < length phone \<and> maskPhone phone ! i = bullet"
    by (auto simp: nth_maskPhone split: if_splits)
  have c5: "\<not> list_ex is_line_terminator phone \<longrightarrow>
      (\<forall>i < length phone.
         maskPhone phone ! i =
           (if is_digit (phone ! i) \<and> i + 8 < length phone then bullet else phone ! i))"
  proof (intro impI allI)
    fix i
    assume nl: "\<not> list_ex is_line_terminator phone" and i: "i < length phone"
    have "set (take 4 (drop (Suc i) phone)) \<subseteq> set phone"
      by (meson set_take_subset set_drop_subset subset_trans)
    with nl have "\<not> list_ex is_line_terminator (take 4 (drop (Suc i) phone))"
      by (auto simp: list_ex_iff)
    with i show "maskPhone phone ! i =
        (if is_digit (phone ! i) \<and> i + 8 < length phone then bullet else phone ! i)"
      by (simp add: nth_maskPhone)
  qed
  have c6: "drop (length phone - 8) (maskPhone phone) = drop (length phone - 8) phone"
    by (rule maskPhone_last8)
  show ?thesis
    by (intro conjI c1 c2 c3 c4 c5 c6)
qed

text \<open>A number of six characters, one of twelve, and one with a line feed in it.\<close>

theorem maskPhone_keeps_last_eight_witness:
  "maskPhone (js ''+12345'') = js ''+12345'' \<and>
   maskPhone (js ''+15551234567'') = [43, bullet, bullet, bullet] @ js ''51234567'' \<and>
   drop 4 (maskPhone (js ''+15551234567'')) = js ''51234567'' \<and>
   maskPhone [49, 50, 10, 52, 53, 54, 55, 56, 57, 48, 49, 50, 51] ! 0 = 49"
proof -
  have a: "length (js ''+12345'') \<le> 6" by code_simp
  have b: "maskPhone (js ''+15551234567'') = [43, bullet, bullet, bullet] @ js ''51234567''"
    by code_simp
  have c: "length (js ''+15551234567'') - 8 = 4" "drop 4 (js ''+15551234567'') = js ''51234567''"
    by code_simp+
  have d: "maskPhone [49, 50, 10, 52, 53, 54, 55, 56, 57, 48, 49, 50, 51] ! 0 = 49"
    by code_simp
  show ?thesis
    using maskPhone_keeps_last_eight [of "js ''+12345''"]
      maskPhone_keeps_last_eight [of "js ''+15551234567''"] a b c d
    by simp
qed



subsection \<open>Parsing a timestamp as UTC\<close>

lemma endsWith_single: "endsWith s [c] \<longleftrightarrow> s \<noteq> [] \<and> last s = c"
proof (cases s rule: rev_cases)
  case Nil
  then show ?thesis by (simp add: endsWith_def)
next
  case (snoc ys y)
  then show ?thesis by (auto simp: endsWith_def)
qed

lemma js_includes_single: "js_includes s [c] \<longleftrightarrow> c \<in> set s"
  by (induction s) auto

lemma js_Z: "js ''Z'' = [90]"
  by (simp add: js_def)

lemma offset_chars: "43 \<notin> set (js ''-05:00'')" "last (js ''-05:00'') \<noteq> 90"
  "js ''-05:00'' \<noteq> []" "js ''-05:00'' @ js ''Z'' = js ''-05:00Z''"
  by (simp_all add: js_def)

text \<open>
  C10. For every datetime string \<open>s\<close>, \<^verbatim>\<open>parseAsUTC(s)\<close> is \<^verbatim>\<open>new Date\<close> of \<open>s\<close> with
  the letter Z appended exactly when \<open>s\<close> does not end with Z and contains no plus sign,
  and \<^verbatim>\<open>new Date\<close> of \<open>s\<close> unchanged otherwise. So a timestamp that ends with the
  negative offset \<^verbatim>\<open>-05:00\<close> (and has no plus sign) gets the Z appended as well.
\<close>

theorem parseAsUTC_appends_Z:
  "parseAsUTC env s =
     newDate env (if \<not> (s \<noteq> [] \<and> last s = 90) \<and> 43 \<notin> set s then s @ [90] else s) \<and>
   (43 \<notin> set s \<longrightarrow> parseAsUTC env (s @ js ''-05:00'') = newDate env (s @ js ''-05:00Z''))"
proof
  show "parseAsUTC env s =
     newDate env (if \<not> (s \<noteq> [] \<and> last s = 90) \<and> 43 \<notin> set s then s @ [90] else s)"
    by (simp add: parseAsUTC_def js_Z js_plus endsWith_single js_includes_single)
next
  show "43 \<notin> set s \<longrightarrow> parseAsUTC env (s @ js ''-05:00'') = newDate env (s @ js ''-05:00Z'')"
  proof
    assume "43 \<notin> set s"
    then have "43 \<notin> set (s @ js ''-05:00'')" "last (s @ js ''-05:00'') \<noteq> 90"
      using offset_chars by simp_all
    then have "parseAsUTC env (s @ js ''-05:00'') = newDate env ((s @ js ''-05:00'') @ js ''Z'')"
      by (simp add: parseAsUTC_def js_Z js_plus endsWith_single js_includes_single)
    then show "parseAsUTC env (s @ js ''-05:00'') = newDate env (s @ js ''-05:00Z'')"
      using offset_chars(4) by simp
  qed
qed

text \<open>Four timestamps in the sample environment, where a date is the string it was
  built from: without a zone, with Z, with a positive offset, with a negative one.\<close>

theorem parseAsUTC_appends_Z_witness:
  "parseAsUTC sample_env (js ''2030-01-15T08:30:00'') = js ''2030-01-15T08:30:00Z'' \<and>
   parseAsUTC sample_env (js ''2030-01-15T08:30:00Z'') = js ''2030-01-15T08:30:00Z'' \<and>
   parseAsUTC sample_env (js ''2030-01-15T08:30:00+02:00'') = js ''2030-01-15T08:30:00+02:00'' \<and>
   parseAsUTC sample_env (js ''2030-01-15T08:30:00'' @ js ''-05:00'') =
     js ''2030-01-15T08:30:00-05:00Z''"
proof -
  have n: "newDate sample_env = (\<lambda>s. s)"
    by (simp add: sample_env_def)
  have a: "parseAsUTC sample_env (js ''2030-01-15T08:30:00'') = js ''2030-01-15T08:30:00Z''"
    by code_simp
  have b: "parseAsUTC sample_env (js ''2030-01-15T08:30:00Z'') = js ''2030-01-15T08:30:00Z''"
    by code_simp
  have c: "parseAsUTC sample_env (js ''2030-01-15T08:30:00+02:00'') =
      js ''2030-01-15T08:30:00+02:00''"
    by code_simp
  have d: "43 \<notin> set (js ''2030-01-15T08:30:00'')"
    by (simp add: js_def)
  have e: "js ''2030-01-15T08:30:00'' @ js ''-05:00Z'' = js ''2030-01-15T08:30:00-05:00Z''"
    by (simp add: js_def)
  show ?thesis
    using parseAsUTC_appends_Z [where env = sample_env and s = "js ''2030-01-15T08:30:00''"] a b c d e n
    by simp
qed

subsection \<open>The card: countdown and actions\<close>

lemma ReminderCard_Inr:
  "ReminderCard env r editForm = Inr v \<longleftrightarrow>
     (\<exists>displayDate countdown dateText timeText.
        toZonedTime env (parseAsUTC env (scheduled_at r)) (timezone r) = Some displayDate \<and>
        useCountdown env (parseAsUTC env (scheduled_at r)) (status r = scheduled) = Inr countdown \<and>
        format env displayDate (js ''MMM d, yyyy'') = Some dateText \<and>
        format env displayDate (js ''h:mm a'') = Some timeText \<and>
        v = \<lparr> view_title = title r,
              view_message = message r,
              view_badge = getStatusConfig (status r),
              view_date = dateText,
              view_time = timeText,
              view_phone = maskPhone (phone_number r),
              view_countdown =
                (if status r = scheduled \<and> countdown \<noteq> [] then
                   Some (if countdown = js ''Processing...'' then countdown
                         else js ''Calls in '' @ countdown)
                 else None),
              view_error =
                (if status r = failed \<and> truthy (error_message r)
                 then error_message r else None),
              view_actions = (if status r = scheduled then [Edit] else []) @ [Delete],
              view_edit_dialog = editForm \<rparr>)"
  by (auto simp: ReminderCard_def Let_def split: option.splits sum.splits)



lemma initialForm_Some_Inr:
  "initialForm env (Some r) = Inr f \<longleftrightarrow>
     (\<exists>dateText timeText.
        zonedText env r (js ''yyyy-MM-dd'') = Inr dateText \<and>
        zonedText env r (js ''HH:mm'') = Inr timeText \<and>
        f = \<lparr> form_reminder = Some r,
              form_title = title r,
              form_message = message r,
              form_phoneDisplay =
                (if phone_number r \<noteq> [] then formatPhoneDisplay (phone_number r) else js ''+''),
              form_date = dateText,
              form_time = timeText,
              form_timezone = timeZone env \<rparr>)"
  by (auto simp: initialForm_def split: sum.splits)

text \<open>
  The sample reminder shows its countdown in Paris; with a zone the library does not
  know, the render throws and nothing is shown.
\<close>

theorem countdown_ignores_timezone_counterexample:
  "map_sum id view_countdown (ReminderCard sample_env sample_reminder None) =
     Inr (Some (js ''Calls in 5 minutes'')) \<and>
   ReminderCard sample_env (sample_reminder\<lparr>timezone := js ''Mars/Phobos''\<rparr>) None =
     Inl RangeError"
  by code_simp

text \<open>
  C6 (as amended). The countdown does not depend on the reminder's time zone as long as
  the card renders: for two reminders that differ only in \<^verbatim>\<open>timezone\<close> and whose cards
  both render, the countdown state shown (computed from \<^verbatim>\<open>scheduled_at\<close> parsed as UTC
  and from the status) is the same, and the cards differ at most in the calendar date
  and the clock time. If the card of one renders, and the zone conversion and the two
  formats succeed for the other zone, the card of the other renders too. The forms
  mounted for the two reminders differ at most in the pre-filled date and time. The
  zone decides only whether the date library throws, in which case nothing is shown.
\<close>

theorem countdown_ignores_timezone:
  "(ReminderCard env r editForm = Inr v \<and>
    ReminderCard env (r\<lparr>timezone := tz\<rparr>) editForm = Inr v' \<longrightarrow>
      view_countdown v' = view_countdown v \<and>
      v' = v\<lparr>view_date := view_date v', view_time := view_time v'\<rparr>) \<and>
   (ReminderCard env r editForm = Inr v \<and>
    toZonedTime env (parseAsUTC env (scheduled_at r)) tz = Some zoned \<and>
    format env zoned (js ''MMM d, yyyy'') = Some dateText \<and>
    format env zoned (js ''h:mm a'') = Some timeText \<longrightarrow>
      ReminderCard env (r\<lparr>timezone := tz\<rparr>) editForm =
        Inr (v\<lparr>view_date := dateText, view_time := timeText\<rparr>)) \<and>
   (initialForm env (Some r) = Inr f \<and>
    initialForm env (Some (r\<lparr>timezone := tz\<rparr>)) = Inr f' \<longrightarrow>
      f' = f\<lparr>form_reminder := Some (r\<lparr>timezone := tz\<rparr>),
             form_date := form_date f', form_time := form_time f'\<rparr>)"
proof -
  let ?r' = "r\<lparr>timezone := tz\<rparr>"
  have c2: "ReminderCard env r editForm = Inr v \<and>
    toZonedTime env (parseAsUTC env (scheduled_at r)) tz = Some zoned \<and>
    format env zoned (js ''MMM d, yyyy'') = Some dateText \<and>
    format env zoned (js ''h:mm a'') = Some timeText \<longrightarrow>
      ReminderCard env ?r' editForm = Inr (v\<lparr>view_date := dateText, view_time := timeText\<rparr>)"
    for zoned dateText timeText
  proof
    assume a: "ReminderCard env r editForm = Inr v \<and>
      toZonedTime env (parseAsUTC env (scheduled_at r)) tz = Some zoned \<and>
      format env zoned (js ''MMM d, yyyy'') = Some dateText \<and>
      format env zoned (js ''h:mm a'') = Some timeText"
    then obtain countdown where
      cd: "useCountdown env (parseAsUTC env (scheduled_at r)) (status r = scheduled) = Inr countdown"
      and v: "view_title v = title r" "view_message v = message r"
        "view_badge v = getStatusConfig (status r)" "view_phone v = maskPhone (phone_number r)"
        "view_countdown v =
          (if status r = scheduled \<and> countdown \<noteq> [] then
             Some (if countdown = js ''Processing...'' then countdown
                   else js ''Calls in '' @ countdown)
           else None)"
        "view_error v =
          (if status r = failed \<and> truthy (error_message r) then error_message r else None)"
        "view_actions v = (if status r = scheduled then [Edit] else []) @ [Delete]"
        "view_edit_dialog v = editForm"
      by (auto simp: ReminderCard_Inr)
    have "ReminderCard env ?r' editForm =
        Inr \<lparr> view_title = title r, view_message = message r,
              view_badge = getStatusConfig (status r), view_date = dateText,
              view_time = timeText, view_phone = maskPhone (phone_number r),
              view_countdown = view_countdown v, view_error = view_error v,
              view_actions = view_actions v, view_edit_dialog = editForm \<rparr>"
      using a cd v(5,6,7) by (simp add: ReminderCard_def Let_def)
    also have "\<dots> = Inr (v\<lparr>view_date := dateText, view_time := timeText\<rparr>)"
      using v by (cases v) simp
    finally show "ReminderCard env ?r' editForm =
        Inr (v\<lparr>view_date := dateText, view_time := timeText\<rparr>)" .
  qed
  have c1: "ReminderCard env r editForm = Inr v \<and> ReminderCard env ?r' editForm = Inr v' \<longrightarrow>
      view_countdown v' = view_countdown v \<and>
      v' = v\<lparr>view_date := view_date v', view_time := view_time v'\<rparr>"
  proof
    assume a: "ReminderCard env r editForm = Inr v \<and> ReminderCard env ?r' editForm = Inr v'"
    then obtain zoned dateText timeText where
      z: "toZonedTime env (parseAsUTC env (scheduled_at r)) tz = Some zoned"
        "format env zoned (js ''MMM d, yyyy'') = Some dateText"
        "format env zoned (js ''h:mm a'') = Some timeText"
      by (auto simp: ReminderCard_Inr [of env ?r'])
    with a c2 [of zoned dateText timeText]
    have "ReminderCard env ?r' editForm = Inr (v\<lparr>view_date := dateText, view_time := timeText\<rparr>)"
      by blast
    with a have "v' = v\<lparr>view_date := dateText, view_time := timeText\<rparr>"
      by simp
    then show "view_countdown v' = view_countdown v \<and>
        v' = v\<lparr>view_date := view_date v', view_time := view_time v'\<rparr>"
      by simp
  qed
  have c3: "initialForm env (Some r) = Inr f \<and> initialForm env (Some ?r') = Inr f' \<longrightarrow>
      f' = f\<lparr>form_reminder := Some ?r', form_date := form_date f', form_time := form_time f'\<rparr>"
    by (auto simp: initialForm_Some_Inr)
  show ?thesis
    by (intro conjI c1 c2 c3)
qed


text \<open>The sample reminder in Paris and in Tokyo: both cards render, with the same
  countdown and another date.\<close>

theorem countdown_ignores_timezone_witness:
  "map_sum id view_countdown (ReminderCard sample_env sample_reminder None) =
     Inr (Some (js ''Calls in 5 minutes'')) \<and>
   map_sum id view_countdown
     (ReminderCard sample_env (sample_reminder\<lparr>timezone := js ''Asia/Tokyo''\<rparr>) None) =
     Inr (Some (js ''Calls in 5 minutes'')) \<and>
   map_sum id view_date
     (ReminderCard sample_env (sample_reminder\<lparr>timezone := js ''Asia/Tokyo''\<rparr>) None) =
     Inr (js ''2030-01-15T08:30:00Z in Asia/Tokyo as MMM d, yyyy'') \<and>
   map_sum id view_date (ReminderCard sample_env sample_reminder None) =
     Inr (js ''2030-01-15T08:30:00Z in Europe/Paris as MMM d, yyyy'')"
proof -
  let ?paris = "ReminderCard sample_env sample_reminder None"
  let ?tokyo = "ReminderCard sample_env (sample_reminder\<lparr>timezone := js ''Asia/Tokyo''\<rparr>) None"
  have r: "\<not> isl ?paris" "\<not> isl ?tokyo"
    by code_simp+
  then have p: "?paris = Inr (projr ?paris)" and t: "?tokyo = Inr (projr ?tokyo)"
    by simp_all
  have a: "map_sum id view_countdown ?paris = Inr (Some (js ''Calls in 5 minutes''))"
    by code_simp
  have d: "map_sum id view_date ?tokyo =
      Inr (js ''2030-01-15T08:30:00Z in Asia/Tokyo as MMM d, yyyy'')"
    "map_sum id view_date ?paris =
      Inr (js ''2030-01-15T08:30:00Z in Europe/Paris as MMM d, yyyy'')"
    by code_simp+
  have "view_countdown (projr ?tokyo) = view_countdown (projr ?paris)"
    using countdown_ignores_timezone [where env = sample_env and r = sample_reminder
        and tz = "js ''Asia/Tokyo''" and editForm = None and v = "projr ?paris"
        and v' = "projr ?tokyo", THEN conjunct1] p t
    by blast
  then have "map_sum id view_countdown ?tokyo = map_sum id view_countdown ?paris"
    using r by (cases ?paris; cases ?tokyo) simp_all
  with a have b: "map_sum id view_countdown ?tokyo = Inr (Some (js ''Calls in 5 minutes''))"
    by simp
  show ?thesis
    by (rule conjI [OF a conjI [OF b conjI [OF d(1) d(2)]]])
qed







section \<open>Properties of the scheduling and delivery engine\<close>

subsection \<open>The status and field invariants\<close>

lemma row_inv_Create: "list_all row_inv rows \<Longrightarrow> list_all row_inv (Create now inp rows)"
  by (simp add: Create_def row_inv_def)

lemma row_inv_Edit: "list_all row_inv rows \<Longrightarrow> list_all row_inv (EditReminder now i inp rows)"
  by (auto simp: EditReminder_def row_inv_def list_all_iff)

lemma row_inv_Reset: "list_all row_inv rows \<Longrightarrow> list_all row_inv (ResetReminder now i inp rows)"
  by (auto simp: ResetReminder_def row_inv_def list_all_iff)

lemma row_inv_Delete: "list_all row_inv rows \<Longrightarrow> list_all row_inv (DeleteReminder i rows)"
  by (auto simp: DeleteReminder_def list_all_iff)

lemma row_inv_MarkCompleted:
  "list_all row_inv rows \<Longrightarrow> list_all row_inv (snd (MarkCompleted now i cid rows))"
  by (auto simp: MarkCompleted_def row_inv_def list_all_iff)

lemma row_inv_MarkFailed:
  "list_all row_inv rows \<Longrightarrow> list_all row_inv (snd (MarkFailed now i why rows))"
  by (auto simp: MarkFailed_def row_inv_def list_all_iff)

lemma row_inv_apply_op: "list_all row_inv rows \<Longrightarrow> list_all row_inv (apply_op now op rows)"
  by (cases op)
    (simp_all add: row_inv_Create row_inv_Edit row_inv_Reset row_inv_Delete row_inv_MarkCompleted
      row_inv_MarkFailed)

lemma row_inv_run_ops: "list_all row_inv rows \<Longrightarrow> list_all row_inv (run_ops ops rows)"
proof (induction ops arbitrary: rows)
  case Nil
  then show ?case by simp
next
  case (Cons x ops)
  obtain now op where x: "x = (now, op)" by (cases x)
  from Cons.prems have "list_all row_inv (apply_op now op rows)"
    by (rule row_inv_apply_op)
  then show ?case
    using Cons.IH x by simp
qed

lemma row_inv_fields:
  "row_inv r \<Longrightarrow>
     (rstatus r = Completed \<longrightarrow> callId r \<noteq> None \<and> errorMessage r = None) \<and>
     (rstatus r = Failed \<longrightarrow> callId r = None \<and> errorMessage r \<noteq> None)"
  by (cases "rstatus r") (simp_all add: row_inv_def)

lemma row_inv_fields_all:
  "list_all row_inv rows \<Longrightarrow>
     \<forall>r \<in> set rows.
       (rstatus r = Completed \<longrightarrow> callId r \<noteq> None \<and> errorMessage r = None) \<and>
       (rstatus r = Failed \<longrightarrow> callId r = None \<and> errorMessage r \<noteq> None)"
  using row_inv_fields by (auto simp: list_all_iff)

text \<open>
  C1. In every reminder record of a store reached from the empty store by creations,
  edits, deletions, MarkCompleted and MarkFailed, status Completed implies a call
  identifier and no error message, and status Failed implies no call identifier and an
  error message. Every transition preserves the status/field invariants of section 3
  (these two and the one for Scheduled, on which MarkFailed relies for the call
  identifier): MarkCompleted, MarkFailed, and an edit, which leaves a Scheduled reminder
  Scheduled, or which resets a Completed or Failed one to Scheduled.
\<close>

theorem status_field_invariants:
  "(\<forall>r \<in> set (run_ops ops []).
      (rstatus r = Completed \<longrightarrow> callId r \<noteq> None \<and> errorMessage r = None) \<and>
      (rstatus r = Failed \<longrightarrow> callId r = None \<and> errorMessage r \<noteq> None)) \<and>
   (list_all row_inv rows \<longrightarrow>
      list_all row_inv (snd (MarkCompleted now i cid rows)) \<and>
      list_all row_inv (snd (MarkFailed now i why rows)) \<and>
      list_all row_inv (EditReminder now i inp rows) \<and>
      list_all row_inv (ResetReminder now i inp rows) \<and>
      (\<forall>r \<in> set (rows @ snd (MarkCompleted now i cid rows) @ snd (MarkFailed now i why rows) @
                  EditReminder now i inp rows @ ResetReminder now i inp rows).
         (rstatus r = Completed \<longrightarrow> callId r \<noteq> None \<and> errorMessage r = None) \<and>
         (rstatus r = Failed \<longrightarrow> callId r = None \<and> errorMessage r \<noteq> None)))"
proof -
  have c1: "\<forall>r \<in> set (run_ops ops []).
      (rstatus r = Completed \<longrightarrow> callId r \<noteq> None \<and> errorMessage r = None) \<and>
      (rstatus r = Failed \<longrightarrow> callId r = None \<and> errorMessage r \<noteq> None)"
    by (rule row_inv_fields_all) (rule row_inv_run_ops, simp)
  have c2: "list_all row_inv rows \<longrightarrow>
      list_all row_inv (snd (MarkCompleted now i cid rows)) \<and>
      list_all row_inv (snd (MarkFailed now i why rows)) \<and>
      list_all row_inv (EditReminder now i inp rows) \<and>
      list_all row_inv (ResetReminder now i inp rows) \<and>
      (\<forall>r \<in> set (rows @ snd (MarkCompleted now i cid rows) @ snd (MarkFailed now i why rows) @
                  EditReminder now i inp rows @ ResetReminder now i inp rows).
         (rstatus r = Completed \<longrightarrow> callId r \<noteq> None \<and> errorMessage r = None) \<and>
         (rstatus r = Failed \<longrightarrow> callId r = None \<and> errorMessage r \<noteq> None))"
  proof
    assume inv: "list_all row_inv rows"
    have a: "list_all row_inv (snd (MarkCompleted now i cid rows))"
      using inv by (rule row_inv_MarkCompleted)
    have b: "list_all row_inv (snd (MarkFailed now i why rows))"
      using inv by (rule row_inv_MarkFailed)
    have c: "list_all row_inv (EditReminder now i inp rows)"
      using inv by (rule row_inv_Edit)
    have c': "list_all row_inv (ResetReminder now i inp rows)"
      using inv by (rule row_inv_Reset)
    have "list_all row_inv (rows @ snd (MarkCompleted now i cid rows) @
        snd (MarkFailed now i why rows) @ EditReminder now i inp rows @
        ResetReminder now i inp rows)"
      using inv a b c c' by simp
    then have d: "\<forall>r \<in> set (rows @ snd (MarkCompleted now i cid rows) @
          snd (MarkFailed now i why rows) @ EditReminder now i inp rows @
          ResetReminder now i inp rows).
        (rstatus r = Completed \<longrightarrow> callId r \<noteq> None \<and> errorMessage r = None) \<and>
        (rstatus r = Failed \<longrightarrow> callId r = None \<and> errorMessage r \<noteq> None)"
      by (rule row_inv_fields_all)
    show "list_all row_inv (snd (MarkCompleted now i cid rows)) \<and>
      list_all row_inv (snd (MarkFailed now i why rows)) \<and>
      list_all row_inv (EditReminder now i inp rows) \<and>
      list_all row_inv (ResetReminder now i inp rows) \<and>
      (\<forall>r \<in> set (rows @ snd (MarkCompleted now i cid rows) @ snd (MarkFailed now i why rows) @
                  EditReminder now i inp rows @ ResetReminder now i inp rows).
         (rstatus r = Completed \<longrightarrow> callId r \<noteq> None \<and> errorMessage r = None) \<and>
         (rstatus r = Failed \<longrightarrow> callId r = None \<and> errorMessage r \<noteq> None))"
      by (intro conjI a b c c' d)
  qed
  show ?thesis
    by (intro conjI c1 c2)
qed



text \<open>A store in which the first reminder failed, was reset by an edit and then
  completed, while the second completed.\<close>

theorem status_field_invariants_witness:
  "map (\<lambda>r. (rid r, rstatus r, callId r, errorMessage r))
     (run_ops [(0, OpCreate (sample_input 100)), (1, OpCreate (sample_input 50)),
               (60, OpMarkCompleted 2 ''call-2''), (110, OpMarkFailed 1 ''timeout''),
               (111, OpMarkCompleted 1 ''late''), (120, OpReset 1 (sample_input 200)),
               (210, OpMarkCompleted 1 ''call-1'')] []) =
     [(1, Completed, Some ''call-1'', None), (2, Completed, Some ''call-2'', None)] \<and>
   list_all row_inv sample_rows \<and>
   map (\<lambda>r. (rid r, rstatus r, callId r, errorMessage r))
     (snd (MarkFailed 110 1 ''timeout'' sample_rows)) =
     [(1, Failed, None, Some ''timeout''), (2, Scheduled, None, None)] \<and>
   list_all row_inv (snd (MarkFailed 110 1 ''timeout'' sample_rows))"
proof -
  have a: "map (\<lambda>r. (rid r, rstatus r, callId r, errorMessage r))
     (run_ops [(0, OpCreate (sample_input 100)), (1, OpCreate (sample_input 50)),
               (60, OpMarkCompleted 2 ''call-2''), (110, OpMarkFailed 1 ''timeout''),
               (111, OpMarkCompleted 1 ''late''), (120, OpReset 1 (sample_input 200)),
               (210, OpMarkCompleted 1 ''call-1'')] []) =
     [(1, Completed, Some ''call-1'', None), (2, Completed, Some ''call-2'', None)]"
    by code_simp
  have b: "list_all row_inv sample_rows"
    by code_simp
  have c: "map (\<lambda>r. (rid r, rstatus r, callId r, errorMessage r))
     (snd (MarkFailed 110 1 ''timeout'' sample_rows)) =
     [(1, Failed, None, Some ''timeout''), (2, Scheduled, None, None)]"
    by code_simp
  show ?thesis
    using status_field_invariants [where rows = sample_rows and now = 110 and i = 1
        and why = "''timeout''"] a b c
    by simp
qed



subsection \<open>Conditional writes\<close>

lemma MarkCompleted_noop:
  "\<not> list_ex (\<lambda>r. rid r = i \<and> rstatus r = Scheduled) rows \<Longrightarrow>
     snd (MarkCompleted now i cid rows) = rows"
  unfolding MarkCompleted_def snd_conv
  by (rule map_idI) (auto simp: list_ex_iff)

lemma MarkFailed_noop:
  "\<not> list_ex (\<lambda>r. rid r = i \<and> rstatus r = Scheduled) rows \<Longrightarrow>
     snd (MarkFailed now i why rows) = rows"
  unfolding MarkFailed_def snd_conv
  by (rule map_idI) (auto simp: list_ex_iff)

lemma not_scheduled_after_MarkCompleted:
  "\<not> list_ex (\<lambda>r. rid r = i \<and> rstatus r = Scheduled) (snd (MarkCompleted now i cid rows))"
proof -
  have "\<not> (rid r' = i \<and> rstatus r' = Scheduled)"
    if "r' = (if rid r = i \<and> rstatus r = Scheduled
                then r\<lparr>rstatus := Completed, callId := Some cid, errorMessage := None,
                       updatedAt := now\<rparr>
                else r)" for r r'
    using that by (cases "rid r = i \<and> rstatus r = Scheduled") simp_all
  then show ?thesis
    unfolding MarkCompleted_def snd_conv list_ex_iff set_map by blast
qed

lemma not_scheduled_after_MarkFailed:
  "\<not> list_ex (\<lambda>r. rid r = i \<and> rstatus r = Scheduled) (snd (MarkFailed now i why rows))"
proof -
  have "\<not> (rid r' = i \<and> rstatus r' = Scheduled)"
    if "r' = (if rid r = i \<and> rstatus r = Scheduled
                then r\<lparr>rstatus := Failed, errorMessage := Some why, updatedAt := now\<rparr>
                else r)" for r r'
    using that by (cases "rid r = i \<and> rstatus r = Scheduled") simp_all
  then show ?thesis
    unfolding MarkFailed_def snd_conv list_ex_iff set_map by blast
qed

lemma fst_MarkCompleted: "fst (MarkCompleted now i cid rows) = write_report i rows"
  by (simp add: MarkCompleted_def)

lemma fst_MarkFailed: "fst (MarkFailed now i why rows) = write_report i rows"
  by (simp add: MarkFailed_def)

lemma write_report_Success:
  "write_report i rows = Success \<longleftrightarrow> list_ex (\<lambda>r. rid r = i \<and> rstatus r = Scheduled) rows"
  by (simp add: write_report_def)

lemma ids_MarkCompleted: "map rid (snd (MarkCompleted now i cid rows)) = map rid rows"
  by (simp add: MarkCompleted_def)

lemma ids_MarkFailed: "map rid (snd (MarkFailed now i why rows)) = map rid rows"
  by (simp add: MarkFailed_def)

lemma write_report_handled:
  assumes "list_ex (\<lambda>r. rid r = i) rows"
    and "\<not> list_ex (\<lambda>r. rid r = i \<and> rstatus r = Scheduled) rows"
  shows "write_report i rows = AlreadyHandled"
  using assms by (simp add: write_report_def)

lemma list_ex_rid: "list_ex (\<lambda>r. rid r = i) rows \<longleftrightarrow> i \<in> set (map rid rows)"
  by (auto simp: list_ex_iff)

text \<open>
  C2. MarkCompleted and MarkFailed are idempotent conditional writes. When no reminder
  with the given identifier is Scheduled at write time, the call is a no-op: it changes
  no field of any reminder and does not report success. So of two calls for the same
  reminder, in any combination, only the first changes the state: when the reminder was
  Scheduled the first call reports success, the second reports that the reminder was
  already handled, and the store after the second call is the store after the first,
  with the same \<^verbatim>\<open>callId\<close> and \<^verbatim>\<open>errorMessage\<close>.
\<close>

theorem conditional_writes_idempotent:
  "(\<not> list_ex (\<lambda>r. rid r = i \<and> rstatus r = Scheduled) rows \<longrightarrow>
      snd (MarkCompleted now i cid rows) = rows \<and>
      snd (MarkFailed now i why rows) = rows \<and>
      fst (MarkCompleted now i cid rows) \<noteq> Success \<and>
      fst (MarkFailed now i why rows) \<noteq> Success) \<and>
   snd (MarkCompleted now' i cid' (snd (MarkCompleted now i cid rows))) =
     snd (MarkCompleted now i cid rows) \<and>
   snd (MarkFailed now' i why' (snd (MarkCompleted now i cid rows))) =
     snd (MarkCompleted now i cid rows) \<and>
   snd (MarkCompleted now' i cid' (snd (MarkFailed now i why rows))) =
     snd (MarkFailed now i why rows) \<and>
   snd (MarkFailed now' i why' (snd (MarkFailed now i why rows))) =
     snd (MarkFailed now i why rows) \<and>
   (list_ex (\<lambda>r. rid r = i \<and> rstatus r = Scheduled) rows \<longrightarrow>
      fst (MarkCompleted now i cid rows) = Success \<and>
      fst (MarkFailed now i why rows) = Success \<and>
      fst (MarkCompleted now' i cid' (snd (MarkCompleted now i cid rows))) = AlreadyHandled \<and>
      fst (MarkFailed now' i why' (snd (MarkCompleted now i cid rows))) = AlreadyHandled \<and>
      fst (MarkCompleted now' i cid' (snd (MarkFailed now i why rows))) = AlreadyHandled \<and>
      fst (MarkFailed now' i why' (snd (MarkFailed now i why rows))) = AlreadyHandled)"
proof -
  have c1: "\<not> list_ex (\<lambda>r. rid r = i \<and> rstatus r = Scheduled) rows \<longrightarrow>
      snd (MarkCompleted now i cid rows) = rows \<and>
      snd (MarkFailed now i why rows) = rows \<and>
      fst (MarkCompleted now i cid rows) \<noteq> Success \<and>
      fst (MarkFailed now i why rows) \<noteq> Success"
    by (simp add: MarkCompleted_noop MarkFailed_noop fst_MarkCompleted fst_MarkFailed
        write_report_Success)
  have c2: "snd (MarkCompleted now' i cid' (snd (MarkCompleted now i cid rows))) =
      snd (MarkCompleted now i cid rows)"
    by (rule MarkCompleted_noop) (rule not_scheduled_after_MarkCompleted)
  have c3: "snd (MarkFailed now' i why' (snd (MarkCompleted now i cid rows))) =
      snd (MarkCompleted now i cid rows)"
    by (rule MarkFailed_noop) (rule not_scheduled_after_MarkCompleted)
  have c4: "snd (MarkCompleted now' i cid' (snd (MarkFailed now i why rows))) =
      snd (MarkFailed now i why rows)"
    by (rule MarkCompleted_noop) (rule not_scheduled_after_MarkFailed)
  have c5: "snd (MarkFailed now' i why' (snd (MarkFailed now i why rows))) =
      snd (MarkFailed now i why rows)"
    by (rule MarkFailed_noop) (rule not_scheduled_after_MarkFailed)
  have c6: "list_ex (\<lambda>r. rid r = i \<and> rstatus r = Scheduled) rows \<longrightarrow>
      fst (MarkCompleted now i cid rows) = Success \<and>
      fst (MarkFailed now i why rows) = Success \<and>
      fst (MarkCompleted now' i cid' (snd (MarkCompleted now i cid rows))) = AlreadyHandled \<and>
      fst (MarkFailed now' i why' (snd (MarkCompleted now i cid rows))) = AlreadyHandled \<and>
      fst (MarkCompleted now' i cid' (snd (MarkFailed now i why rows))) = AlreadyHandled \<and>
      fst (MarkFailed now' i why' (snd (MarkFailed now i why rows))) = AlreadyHandled"
  proof
    assume s: "list_ex (\<lambda>r. rid r = i \<and> rstatus r = Scheduled) rows"
    then have "list_ex (\<lambda>r. rid r = i) rows"
      by (auto simp: list_ex_iff)
    then have e: "list_ex (\<lambda>r. rid r = i) (snd (MarkCompleted now i cid rows))"
      "list_ex (\<lambda>r. rid r = i) (snd (MarkFailed now i why rows))"
      by (simp_all only: list_ex_rid ids_MarkCompleted ids_MarkFailed)
    have h1: "write_report i (snd (MarkCompleted now i cid rows)) = AlreadyHandled"
      using e(1) not_scheduled_after_MarkCompleted by (rule write_report_handled)
    have h2: "write_report i (snd (MarkFailed now i why rows)) = AlreadyHandled"
      using e(2) not_scheduled_after_MarkFailed by (rule write_report_handled)
    from s h1 h2 show "fst (MarkCompleted now i cid rows) = Success \<and>
      fst (MarkFailed now i why rows) = Success \<and>
      fst (MarkCompleted now' i cid' (snd (MarkCompleted now i cid rows))) = AlreadyHandled \<and>
      fst (MarkFailed now' i why' (snd (MarkCompleted now i cid rows))) = AlreadyHandled \<and>
      fst (MarkCompleted now' i cid' (snd (MarkFailed now i why rows))) = AlreadyHandled \<and>
      fst (MarkFailed now' i why' (snd (MarkFailed now i why rows))) = AlreadyHandled"
      by (simp add: fst_MarkCompleted fst_MarkFailed write_report_Success)
  qed
  show ?thesis
    by (intro conjI c1 c2 c3 c4 c5 c6)
qed

text \<open>The first sample reminder, completed at instant 110 and then reported failed by
  an overlapping cycle at 111: the second write is a no-op.\<close>

theorem conditional_writes_idempotent_witness:
  "list_ex (\<lambda>r. rid r = 1 \<and> rstatus r = Scheduled) sample_rows \<and>
   MarkCompleted 110 1 ''call-1'' sample_rows =
     (Success, [(sample_rows ! 0)\<lparr>rstatus := Completed, callId := Some ''call-1'',
                                 errorMessage := None, updatedAt := 110\<rparr>, sample_rows ! 1]) \<and>
   MarkFailed 111 1 ''timeout'' (snd (MarkCompleted 110 1 ''call-1'' sample_rows)) =
     (AlreadyHandled, snd (MarkCompleted 110 1 ''call-1'' sample_rows)) \<and>
   \<not> list_ex (\<lambda>r. rid r = 3 \<and> rstatus r = Scheduled) sample_rows \<and>
   MarkFailed 111 3 ''timeout'' sample_rows = (NotFound, sample_rows)"
proof -
  have a: "list_ex (\<lambda>r. rid r = 1 \<and> rstatus r = Scheduled) sample_rows"
    by code_simp
  have b: "MarkCompleted 110 1 ''call-1'' sample_rows =
     (Success, [(sample_rows ! 0)\<lparr>rstatus := Completed, callId := Some ''call-1'',
                                 errorMessage := None, updatedAt := 110\<rparr>, sample_rows ! 1])"
    by code_simp
  have c: "\<not> list_ex (\<lambda>r. rid r = 3 \<and> rstatus r = Scheduled) sample_rows"
    by code_simp
  have d: "fst (MarkFailed 111 3 ''timeout'' sample_rows) = NotFound"
    by code_simp
  note t1 = conditional_writes_idempotent [where rows = sample_rows and i = 1 and now = 110
      and cid = "''call-1''" and now' = 111 and why' = "''timeout''" and why = "[]" and cid' = "[]"]
  note t2 = conditional_writes_idempotent [where rows = sample_rows and i = 3 and now = 111
      and why = "''timeout''" and cid = "[]" and now' = 0 and why' = "[]" and cid' = "[]"]
  have e1: "snd (MarkFailed 111 1 ''timeout'' (snd (MarkCompleted 110 1 ''call-1'' sample_rows))) =
      snd (MarkCompleted 110 1 ''call-1'' sample_rows)"
    by (rule t1 [THEN conjunct2, THEN conjunct2, THEN conjunct1])
  have e2: "fst (MarkFailed 111 1 ''timeout'' (snd (MarkCompleted 110 1 ''call-1'' sample_rows))) =
      AlreadyHandled"
    by (rule t1 [THEN conjunct2, THEN conjunct2, THEN conjunct2, THEN conjunct2, THEN conjunct2,
          THEN mp, OF a, THEN conjunct2, THEN conjunct2, THEN conjunct2, THEN conjunct1])
  have e: "MarkFailed 111 1 ''timeout'' (snd (MarkCompleted 110 1 ''call-1'' sample_rows)) =
     (AlreadyHandled, snd (MarkCompleted 110 1 ''call-1'' sample_rows))"
    by (rule prod_eqI) (simp_all only: fst_conv snd_conv e1 e2)
  have f1: "snd (MarkFailed 111 3 ''timeout'' sample_rows) = sample_rows"
    by (rule t2 [THEN conjunct1, THEN mp, OF c, THEN conjunct2, THEN conjunct1])
  have f: "MarkFailed 111 3 ''timeout'' sample_rows = (NotFound, sample_rows)"
    by (rule prod_eqI) (simp_all only: fst_conv snd_conv f1 d)
  show ?thesis
    by (rule conjI [OF a conjI [OF b conjI [OF e conjI [OF c f]]]])
qed



subsection \<open>Dispatch without provider configuration\<close>

lemma PlaceCall_no_config:
  "apiKey cfg = None \<or> phoneNumberId cfg = None \<Longrightarrow>
     PlaceCall cfg net phone msg sent =
       (CallFailed (ConfigurationError config_missing_reason), sent)"
  by (simp add: PlaceCall_def)

lemma Dispatch_no_config:
  "apiKey cfg = None \<or> phoneNumberId cfg = None \<Longrightarrow>
     Dispatch cfg net now r w =
       \<lparr> store = snd (MarkFailed now (rid r) config_missing_reason (store w)),
         calls = calls w, dispatched = dispatched w @ [rid r] \<rparr>"
  by (simp add: Dispatch_def PlaceCall_no_config)

lemma set_FindDue:
  "set (FindDue now rows) = {r \<in> set rows. rstatus r = Scheduled \<and> scheduledAt r \<le> now}"
  by (simp add: FindDue_def)

lemma fail_twice:
  fixes now :: int and why :: string and S :: "nat set"
  defines "fail \<equiv> \<lambda>x. x\<lparr>rstatus := Failed, errorMessage := Some why, updatedAt := now\<rparr>"
  shows "(\<lambda>x. if rid x \<in> S \<and> rstatus x = Scheduled then fail x else x)
           ((\<lambda>x. if rid x = i \<and> rstatus x = Scheduled then fail x else x) x) =
         (if rid x \<in> insert i S \<and> rstatus x = Scheduled then fail x else x)"
proof (cases "rstatus x = Scheduled")
  case False
  then show ?thesis by simp
next
  case sch: True
  show ?thesis
  proof (cases "rid x = i")
    case True
    with sch show ?thesis by (simp add: fail_def)
  next
    case False
    with sch show ?thesis by simp
  qed
qed

lemma foldl_Dispatch_no_config:
  assumes "apiKey cfg = None \<or> phoneNumberId cfg = None"
  shows "foldl (\<lambda>w' r. Dispatch cfg net now r w') w due =
     \<lparr> store =
         map (\<lambda>x. if rid x \<in> rid ` set due \<and> rstatus x = Scheduled
                   then x\<lparr>rstatus := Failed, errorMessage := Some config_missing_reason,
                          updatedAt := now\<rparr>
                   else x) (store w),
       calls = calls w, dispatched = dispatched w @ map rid due \<rparr>"
proof (induction due arbitrary: w)
  case Nil
  then show ?case by simp
next
  case (Cons r due)
  have "foldl (\<lambda>w' r. Dispatch cfg net now r w') w (r # due) =
      foldl (\<lambda>w' r. Dispatch cfg net now r w') (Dispatch cfg net now r w) due"
    by simp
  also have "\<dots> = \<lparr> store =
         map (\<lambda>x. if rid x \<in> rid ` set due \<and> rstatus x = Scheduled
                   then x\<lparr>rstatus := Failed, errorMessage := Some config_missing_reason,
                          updatedAt := now\<rparr>
                   else x) (store (Dispatch cfg net now r w)),
       calls = calls (Dispatch cfg net now r w),
       dispatched = dispatched (Dispatch cfg net now r w) @ map rid due \<rparr>"
    by (rule Cons.IH)
  also have "\<dots> = \<lparr> store =
         map (\<lambda>x. if rid x \<in> rid ` set (r # due) \<and> rstatus x = Scheduled
                   then x\<lparr>rstatus := Failed, errorMessage := Some config_missing_reason,
                          updatedAt := now\<rparr>
                   else x) (store w),
       calls = calls w, dispatched = dispatched w @ map rid (r # due) \<rparr>"
    unfolding Dispatch_no_config [OF assms] MarkFailed_def
    by (simp add: fail_twice del: fun_upd_apply)
  finally show ?case .
qed

lemma Tick_no_config:
  assumes "apiKey cfg = None \<or> phoneNumberId cfg = None"
  shows "Tick cfg net now w =
     \<lparr> store =
         map (\<lambda>x. if rid x \<in> rid ` set (FindDue now (store w)) \<and> rstatus x = Scheduled
                   then x\<lparr>rstatus := Failed, errorMessage := Some config_missing_reason,
                          updatedAt := now\<rparr>
                   else x) (store w),
       calls = calls w, dispatched = dispatched w @ map rid (FindDue now (store w)) \<rparr>"
  unfolding Tick_def by (rule foldl_Dispatch_no_config [OF assms])

lemma no_due_after_failing:
  "FindDue now
     (map (\<lambda>x. if rid x \<in> rid ` set (FindDue now rows) \<and> rstatus x = Scheduled
               then x\<lparr>rstatus := Failed, errorMessage := Some why, updatedAt := t\<rparr>
               else x) rows) = []"
proof -
  define g where "g = (\<lambda>x::ReminderRow. if rid x \<in> rid ` set (FindDue now rows) \<and> rstatus x = Scheduled
               then x\<lparr>rstatus := Failed, errorMessage := Some why, updatedAt := t\<rparr>
               else x)"
  have ng: "\<not> (rstatus (g x) = Scheduled \<and> scheduledAt (g x) \<le> now)" if "x \<in> set rows" for x
  proof (cases "rid x \<in> rid ` set (FindDue now rows) \<and> rstatus x = Scheduled")
    case True
    then show ?thesis by (simp add: g_def)
  next
    case False
    have "x \<notin> set (FindDue now rows)"
      using False by (cases "rstatus x = Scheduled") (auto simp: set_FindDue)
    with that have "\<not> (rstatus x = Scheduled \<and> scheduledAt x \<le> now)"
      by (simp add: set_FindDue)
    with False show ?thesis by (auto simp: g_def)
  qed
  have "\<forall>y \<in> set (map g rows). \<not> (rstatus y = Scheduled \<and> scheduledAt y \<le> now)"
  proof
    fix y
    assume "y \<in> set (map g rows)"
    then obtain x where "x \<in> set rows" "y = g x"
      by (auto simp only: set_map)
    with ng show "\<not> (rstatus y = Scheduled \<and> scheduledAt y \<le> now)"
      by blast
  qed
  then have "filter (\<lambda>r. rstatus r = Scheduled \<and> scheduledAt r \<le> now) (map g rows) = []"
    by (simp only: filter_empty_conv)
  then have "FindDue now (map g rows) = []"
    by (simp only: FindDue_def sort_key_simps)
  then show ?thesis
    unfolding g_def .
qed


text \<open>
  C3. If the provider configuration is absent (no API key or no outbound-number
  identifier), placing a call fails at once with a configuration error and sends
  nothing over the network. Dispatching a reminder then sends no request and leaves no
  reminder with that identifier Scheduled, and a due reminder becomes Failed with the
  configuration reason as its error message. A whole tick sends no request, moves every
  due reminder to Failed with that reason and leaves no reminder due. Dispatch and Tick
  are total: an error raised while placing a call is an outcome that Dispatch turns
  into a Failed write, so nothing escapes to the loop.
\<close>

theorem missing_configuration_fails_reminder:
  assumes "apiKey cfg = None \<or> phoneNumberId cfg = None"
  shows
    "PlaceCall cfg net phone msg sent =
       (CallFailed (ConfigurationError config_missing_reason), sent) \<and>
     calls (Dispatch cfg net now r w) = calls w \<and>
     (\<forall>x \<in> set (store (Dispatch cfg net now r w)). rid x = rid r \<longrightarrow> rstatus x \<noteq> Scheduled) \<and>
     (r \<in> set (FindDue now (store w)) \<longrightarrow>
        r\<lparr>rstatus := Failed, errorMessage := Some config_missing_reason, updatedAt := now\<rparr>
          \<in> set (store (Dispatch cfg net now r w))) \<and>
     calls (Tick cfg net now w) = calls w \<and>
     FindDue now (store (Tick cfg net now w)) = [] \<and>
     (\<forall>d \<in> set (FindDue now (store w)).
        d\<lparr>rstatus := Failed, errorMessage := Some config_missing_reason, updatedAt := now\<rparr>
          \<in> set (store (Tick cfg net now w)))"
proof -
  note D = Dispatch_no_config [OF assms, of net now r w]
  note T = Tick_no_config [OF assms, of net now w]
  have c1: "PlaceCall cfg net phone msg sent =
       (CallFailed (ConfigurationError config_missing_reason), sent)"
    using assms by (rule PlaceCall_no_config)
  have c2: "calls (Dispatch cfg net now r w) = calls w"
    by (simp add: D)
  have c3: "\<forall>x \<in> set (store (Dispatch cfg net now r w)). rid x = rid r \<longrightarrow> rstatus x \<noteq> Scheduled"
    using not_scheduled_after_MarkFailed [of "rid r" now config_missing_reason "store w"]
    by (simp add: D list_ex_iff)
  have c4: "r \<in> set (FindDue now (store w)) \<longrightarrow>
        r\<lparr>rstatus := Failed, errorMessage := Some config_missing_reason, updatedAt := now\<rparr>
          \<in> set (store (Dispatch cfg net now r w))"
  proof
    assume "r \<in> set (FindDue now (store w))"
    then have r: "r \<in> set (store w)" "rstatus r = Scheduled"
      by (simp_all add: set_FindDue)
    have "(\<lambda>x. if rid x = rid r \<and> rstatus x = Scheduled
                then x\<lparr>rstatus := Failed, errorMessage := Some config_missing_reason,
                       updatedAt := now\<rparr>
                else x) r \<in> set (store (Dispatch cfg net now r w))"
      unfolding D MarkFailed_def snd_conv world.simps set_map using r(1) by (rule imageI)
    with r(2) show "r\<lparr>rstatus := Failed, errorMessage := Some config_missing_reason,
        updatedAt := now\<rparr> \<in> set (store (Dispatch cfg net now r w))"
      by simp
  qed
  have c5: "calls (Tick cfg net now w) = calls w"
    by (simp add: T)
  have c6: "FindDue now (store (Tick cfg net now w)) = []"
    unfolding T world.simps by (rule no_due_after_failing)
  have c7: "\<forall>d \<in> set (FindDue now (store w)).
        d\<lparr>rstatus := Failed, errorMessage := Some config_missing_reason, updatedAt := now\<rparr>
          \<in> set (store (Tick cfg net now w))"
  proof
    fix d
    assume d: "d \<in> set (FindDue now (store w))"
    then have r: "d \<in> set (store w)" "rstatus d = Scheduled"
      by (simp_all add: set_FindDue)
    have "(\<lambda>x. if rid x \<in> rid ` set (FindDue now (store w)) \<and> rstatus x = Scheduled
                then x\<lparr>rstatus := Failed, errorMessage := Some config_missing_reason,
                       updatedAt := now\<rparr>
                else x) d \<in> set (store (Tick cfg net now w))"
      unfolding T world.simps set_map using r(1) by (rule imageI)
    with r(2) d show "d\<lparr>rstatus := Failed, errorMessage := Some config_missing_reason,
        updatedAt := now\<rparr> \<in> set (store (Tick cfg net now w))"
      by simp
  qed
  show ?thesis
    by (intro conjI c1 c2 c3 c4 c5 c6 c7)
qed

text \<open>A tick at instant 120 over the sample store, with no configuration: both
  reminders are due, no request is sent and both end Failed.\<close>

theorem missing_configuration_fails_reminder_witness:
  "(apiKey no_config = None \<or> phoneNumberId no_config = None) \<and>
   map rid (FindDue 120 (store sample_world)) = [2, 1] \<and>
   calls (Tick no_config (\<lambda>q. Accepted ''abc'') 120 sample_world) = calls sample_world \<and>
   FindDue 120 (store (Tick no_config (\<lambda>q. Accepted ''abc'') 120 sample_world)) = [] \<and>
   map (\<lambda>r. (rid r, rstatus r, callId r, errorMessage r))
     (store (Tick no_config (\<lambda>q. Accepted ''abc'') 120 sample_world)) =
     [(1, Failed, None, Some config_missing_reason), (2, Failed, None, Some config_missing_reason)]"
proof -
  have h: "apiKey no_config = None \<or> phoneNumberId no_config = None"
    by (simp add: no_config_def)
  have a: "map rid (FindDue 120 (store sample_world)) = [2, 1]"
    by code_simp
  have b: "map (\<lambda>r. (rid r, rstatus r, callId r, errorMessage r))
     (store (Tick no_config (\<lambda>q. Accepted ''abc'') 120 sample_world)) =
     [(1, Failed, None, Some config_missing_reason), (2, Failed, None, Some config_missing_reason)]"
    by code_simp
  note t = missing_configuration_fails_reminder [OF h, where net = "\<lambda>q. Accepted ''abc''"
      and now = 120 and w = sample_world and phone = "[]" and msg = "[]" and sent = "[]"
      and r = "hd sample_rows"]
  have c: "calls (Tick no_config (\<lambda>q. Accepted ''abc'') 120 sample_world) = calls sample_world"
    by (rule t [THEN conjunct2, THEN conjunct2, THEN conjunct2, THEN conjunct2, THEN conjunct1])
  have d: "FindDue 120 (store (Tick no_config (\<lambda>q. Accepted ''abc'') 120 sample_world)) = []"
    by (rule t [THEN conjunct2, THEN conjunct2, THEN conjunct2, THEN conjunct2, THEN conjunct2,
          THEN conjunct1])
  show ?thesis
    by (rule conjI [OF h conjI [OF a conjI [OF c conjI [OF d b]]]])
qed

subsection \<open>The due reminders and their order\<close>

lemma dispatched_Dispatch: "dispatched (Dispatch cfg net now r w) = dispatched w @ [rid r]"
  by (simp add: Dispatch_def split: prod.splits)

lemma dispatched_foldl:
  "dispatched (foldl (\<lambda>w' r. Dispatch cfg net now r w') w due) = dispatched w @ map rid due"
  by (induction due arbitrary: w) (simp_all add: dispatched_Dispatch)

lemma calls_Dispatch:
  "apiKey cfg \<noteq> None \<and> phoneNumberId cfg \<noteq> None \<Longrightarrow>
     calls (Dispatch cfg net now r w) = calls w @ [(phoneNumber r, rmessage r)]"
  by (simp add: Dispatch_def PlaceCall_def)

lemma calls_foldl:
  "apiKey cfg \<noteq> None \<and> phoneNumberId cfg \<noteq> None \<Longrightarrow>
     calls (foldl (\<lambda>w' r. Dispatch cfg net now r w') w due) =
       calls w @ map (\<lambda>r. (phoneNumber r, rmessage r)) due"
  by (induction due arbitrary: w) (simp_all add: calls_Dispatch)

lemma sorted_positions:
  fixes f :: "'a \<Rightarrow> int"
  assumes "sorted (map f xs)" "i < length xs" "j < length xs" "f (xs ! i) < f (xs ! j)"
  shows "i < j"
proof (rule ccontr)
  assume "\<not> i < j"
  then have "j \<le> i" by simp
  with assms(1,2) have "map f xs ! j \<le> map f xs ! i"
    by (simp add: sorted_iff_nth_mono del: nth_map)
  with assms(2,3,4) show False by simp
qed

text \<open>
  C4. For every instant \<open>now\<close>, FindDue returns exactly the reminders with status
  Scheduled and \<^verbatim>\<open>scheduledAt\<close> at most \<open>now\<close> (the same reminders, each as often as it
  is stored), sorted by \<^verbatim>\<open>scheduledAt\<close> ascending. One tick starts the dispatches in
  that order, so within a tick a reminder due at T1 is dispatched before one due at a
  later T2; with a configured provider the requests are sent in that order too.
\<close>

theorem FindDue_due_in_order:
  "set (FindDue now rows) = {r \<in> set rows. rstatus r = Scheduled \<and> scheduledAt r \<le> now} \<and>
   mset (FindDue now rows) =
     filter_mset (\<lambda>r. rstatus r = Scheduled \<and> scheduledAt r \<le> now) (mset rows) \<and>
   sorted (map scheduledAt (FindDue now rows)) \<and>
   dispatched (Tick cfg net now w) = dispatched w @ map rid (FindDue now (store w)) \<and>
   (\<forall>i j. i < length (FindDue now (store w)) \<and> j < length (FindDue now (store w)) \<and>
      scheduledAt (FindDue now (store w) ! i) < scheduledAt (FindDue now (store w) ! j) \<longrightarrow>
      i < j) \<and>
   (apiKey cfg \<noteq> None \<and> phoneNumberId cfg \<noteq> None \<longrightarrow>
      calls (Tick cfg net now w) =
        calls w @ map (\<lambda>r. (phoneNumber r, rmessage r)) (FindDue now (store w)))"
proof -
  have c1: "set (FindDue now rows) =
      {r \<in> set rows. rstatus r = Scheduled \<and> scheduledAt r \<le> now}"
    by (rule set_FindDue)
  have c2: "mset (FindDue now rows) =
     filter_mset (\<lambda>r. rstatus r = Scheduled \<and> scheduledAt r \<le> now) (mset rows)"
    by (simp add: FindDue_def)
  have c3: "sorted (map scheduledAt (FindDue now rows))" for rows
    by (simp add: FindDue_def)
  have c4: "dispatched (Tick cfg net now w) = dispatched w @ map rid (FindDue now (store w))"
    unfolding Tick_def by (rule dispatched_foldl)
  have c5: "\<forall>i j. i < length (FindDue now (store w)) \<and> j < length (FindDue now (store w)) \<and>
      scheduledAt (FindDue now (store w) ! i) < scheduledAt (FindDue now (store w) ! j) \<longrightarrow>
      i < j"
    using sorted_positions [OF c3 [of "store w"]] by blast
  have c6: "apiKey cfg \<noteq> None \<and> phoneNumberId cfg \<noteq> None \<longrightarrow>
      calls (Tick cfg net now w) =
        calls w @ map (\<lambda>r. (phoneNumber r, rmessage r)) (FindDue now (store w))"
    unfolding Tick_def using calls_foldl by blast
  show ?thesis
    by (intro conjI c1 c2 c3 c4 c5 c6)
qed

text \<open>The sample store at instants 70 and 120: the reminder due at 50 comes before
  the one due at 100, and a tick dispatches them in that order.\<close>

theorem FindDue_due_in_order_witness:
  "map rid (FindDue 70 sample_rows) = [2] \<and>
   map (\<lambda>r. (rid r, scheduledAt r)) (FindDue 120 (store sample_world)) = [(2, 50), (1, 100)] \<and>
   dispatched (Tick sample_config (\<lambda>q. Accepted ''abc'') 120 sample_world) = [2, 1] \<and>
   length (calls (Tick sample_config (\<lambda>q. Accepted ''abc'') 120 sample_world)) = 2"
proof -
  have a: "map rid (FindDue 70 sample_rows) = [2]"
    by code_simp
  have b: "map (\<lambda>r. (rid r, scheduledAt r)) (FindDue 120 (store sample_world)) = [(2, 50), (1, 100)]"
    by code_simp
  have b': "map rid (FindDue 120 (store sample_world)) = [2, 1]" "dispatched sample_world = []"
    by code_simp+
  have e: "length (calls (Tick sample_config (\<lambda>q. Accepted ''abc'') 120 sample_world)) = 2"
    by code_simp
  note t = FindDue_due_in_order [where cfg = sample_config and net = "\<lambda>q. Accepted ''abc''"
      and now = 120 and w = sample_world and rows = sample_rows]
  have c: "dispatched (Tick sample_config (\<lambda>q. Accepted ''abc'') 120 sample_world) = [2, 1]"
    using t [THEN conjunct2, THEN conjunct2, THEN conjunct2, THEN conjunct1]
    by (simp only: b' append_Nil)
  show ?thesis
    by (rule conjI [OF a conjI [OF b conjI [OF c e]]])
qed


end
